theory Spec2Isabelle
  imports Main "HOL-Library.Word"
begin

unbundle bit_operations_syntax

section \<open>Data model (include/StatusLed/StatusLed.h, Config.h)\<close>

type_synonym u8 = "8 word"
type_synonym u16 = "16 word"
type_synonym u32 = "32 word"

text \<open>\<^verbatim>\<open>struct RgbColor\<close>: three 8-bit channels, equality is field-wise.\<close>

record RgbColor =
  r :: u8
  g :: u8
  b :: u8

definition mkRgb :: "u8 \<Rightarrow> u8 \<Rightarrow> u8 \<Rightarrow> RgbColor" where
  "mkRgb red green blue = \<lparr>r = red, g = green, b = blue\<rparr>"

text \<open>\<^verbatim>\<open>enum class Mode : uint8_t\<close>, in declaration order (Off = 0 ... Alternate = 18).\<close>

datatype Mode =
  Off | Solid | Dim | BlinkSlow | BlinkFast | DoubleBlink | TripleBlink | Beacon | Strobe
  | FadeIn | FadeOut | PulseSoft | PulseSharp | Breathing | Heartbeat | Throb
  | FlickerCandle | Glitch | Alternate

text \<open>
  A caller can hand \<^verbatim>\<open>setMode\<close> any byte through a \<^verbatim>\<open>static_cast\<close>; \<open>modeOfRaw\<close>
  decodes the byte, and \<^verbatim>\<open>isValidMode\<close> is the test that the decoding succeeds.
\<close>

definition modeOfRaw :: "u8 \<Rightarrow> Mode option" where
  "modeOfRaw x =
     (if unat x < 19
      then Some ([Off, Solid, Dim, BlinkSlow, BlinkFast, DoubleBlink, TripleBlink, Beacon, Strobe,
                  FadeIn, FadeOut, PulseSoft, PulseSharp, Breathing, Heartbeat, Throb,
                  FlickerCandle, Glitch, Alternate] ! unat x)
      else None)"

definition isValidMode :: "u8 \<Rightarrow> bool" where
  "isValidMode x = (modeOfRaw x \<noteq> None)"

text \<open>
  \<^verbatim>\<open>enum class StatusPreset : uint8_t\<close>. The value is kept as its underlying byte, since
  the setters receive values outside the enumeration and look them up in the catalog.
\<close>

type_synonym StatusPreset = u8

definition PresetOff :: StatusPreset where "PresetOff = 0"
definition PresetReady :: StatusPreset where "PresetReady = 1"
definition PresetBusy :: StatusPreset where "PresetBusy = 2"
definition PresetWarning :: StatusPreset where "PresetWarning = 3"
definition PresetError :: StatusPreset where "PresetError = 4"
definition PresetCritical :: StatusPreset where "PresetCritical = 5"
definition PresetUpdating :: StatusPreset where "PresetUpdating = 6"
definition PresetInfo :: StatusPreset where "PresetInfo = 7"
definition PresetMaintenance :: StatusPreset where "PresetMaintenance = 8"
definition PresetAlarmPolice :: StatusPreset where "PresetAlarmPolice = 9"
definition PresetHazardAmber :: StatusPreset where "PresetHazardAmber = 10"

text \<open>\<^verbatim>\<open>struct ModeParams\<close> with its default member initialisers.\<close>

record ModeParams =
  periodMs :: u16
  onMs :: u16
  riseMs :: u16
  fallMs :: u16
  minLevel :: u8
  maxLevel :: u8

definition ModeParams0 :: ModeParams where
  "ModeParams0 =
     \<lparr>periodMs = 1000, onMs = 500, riseMs = 800, fallMs = 800, minLevel = 0, maxLevel = 255\<rparr>"

text \<open>
  \<^verbatim>\<open>enum class ColorOrder : uint8_t { GRB = 0, RGB = 1 }\<close> is kept as its byte: a
  configuration can carry any value (the tests cast 99 into it).
\<close>

type_synonym ColorOrder = u8

definition ColorOrderGRB :: ColorOrder where "ColorOrderGRB = 0"
definition ColorOrderRGB :: ColorOrder where "ColorOrderRGB = 1"

text \<open>\<^verbatim>\<open>struct Config\<close>; \<open>dataPin\<close> is a C++ \<^verbatim>\<open>int\<close>.\<close>

record Config =
  dataPin :: int
  ledCount :: u8
  colorOrder :: ColorOrder
  rmtChannel :: u8
  globalBrightness :: u8
  smoothStepMs :: u16

definition Config0 :: Config where
  "Config0 = \<lparr>dataPin = - 1, ledCount = 0, colorOrder = ColorOrderGRB, rmtChannel = 0,
               globalBrightness = 255, smoothStepMs = 20\<rparr>"

text \<open>
  Modelled from the spec: \<^verbatim>\<open>StatusLed/Status.h\<close> (the error enumeration and the
  \<^verbatim>\<open>Status\<close> triple of category, numeric detail and static text) is not among the
  sources; the constructors are the categories the sources use.
\<close>

datatype Err =
  OK | INVALID_CONFIG | NOT_INITIALIZED | OUT_OF_MEMORY | RESOURCE_BUSY | HARDWARE_FAULT
  | INTERNAL_ERROR

record Status =
  code :: Err
  detail :: int
  msg :: string

definition mkStatus :: "Err \<Rightarrow> int \<Rightarrow> string \<Rightarrow> Status" where
  "mkStatus c d m = \<lparr>code = c, detail = d, msg = m\<rparr>"

definition Ok :: Status where
  "Ok = mkStatus OK 0 []"

definition ok :: "Status \<Rightarrow> bool" where
  "ok st = (code st = OK)"

text \<open>\<^verbatim>\<open>struct LedState\<close> (private to the engine), with its default member initialisers.\<close>

record LedState =
  mode :: Mode
  params :: ModeParams
  color :: RgbColor
  altColor :: RgbColor
  brightness :: u8
  intensity :: u8
  phase :: u8
  useAlt :: bool
  nextUpdateMs :: u32
  phaseEndMs :: u32
  modeStartMs :: u32
  currentPreset :: StatusPreset
  defaultPreset :: StatusPreset
  tempActive :: bool
  tempPending :: bool
  tempPreset :: StatusPreset
  tempUntilMs :: u32
  tempDurationMs :: u32
  resumeMode :: Mode
  resumeParams :: ModeParams
  resumeColor :: RgbColor
  resumeAltColor :: RgbColor
  resumeBrightness :: u8
  resumePreset :: StatusPreset
  lfsr :: u32

definition LedState0 :: LedState where
  "LedState0 =
     \<lparr>mode = Off, params = ModeParams0, color = mkRgb 0 0 0, altColor = mkRgb 0 0 0,
      brightness = 255, intensity = 0, phase = 0, useAlt = False,
      nextUpdateMs = 0, phaseEndMs = 0, modeStartMs = 0,
      currentPreset = PresetOff, defaultPreset = PresetOff,
      tempActive = False, tempPending = False, tempPreset = PresetOff,
      tempUntilMs = 0, tempDurationMs = 0,
      resumeMode = Off, resumeParams = ModeParams0, resumeColor = mkRgb 0 0 0,
      resumeAltColor = mkRgb 0 0 0, resumeBrightness = 255, resumePreset = PresetOff,
      lfsr = 0xABCDE\<rparr>"

text \<open>
  The engine object \<^verbatim>\<open>class StatusLed\<close>: its private members. The backend pointer is
  modelled by whether it is non-null; what the backend answers is an input of the
  operations that call it.
\<close>

record Engine =
  config :: Config
  initialized :: bool
  lastStatus :: Status
  lastTickMs :: u32
  frameDirty :: bool
  leds :: "LedState list"
  frame :: "RgbColor list"
  backend :: bool

definition kMaxLedCount :: nat where
  "kMaxLedCount = 10"

definition Engine0 :: Engine where
  "Engine0 =
     \<lparr>config = Config0, initialized = False, lastStatus = Ok, lastTickMs = 0,
      frameDirty = False, leds = replicate kMaxLedCount LedState0,
      frame = replicate kMaxLedCount (mkRgb 0 0 0), backend = False\<rparr>"

section \<open>Constants, tables and pure helpers (src/StatusLed.cpp, anonymous namespace)\<close>

definition kDimLevel :: u8 where "kDimLevel = 48"
definition kNever :: u32 where "kNever = 0xFFFFFFFF"
definition kMinSmoothStepMs :: u16 where "kMinSmoothStepMs = 5"
definition kMaxSmoothStepMs :: u16 where "kMaxSmoothStepMs = 1000"

record PatternStep =
  durationMs :: u16
  stepIntensity :: u8
  stepUseAlt :: bool

definition mkStep :: "u16 \<Rightarrow> u8 \<Rightarrow> bool \<Rightarrow> PatternStep" where
  "mkStep d i a = \<lparr>durationMs = d, stepIntensity = i, stepUseAlt = a\<rparr>"

definition kPatternDoubleBlink :: "PatternStep list" where
  "kPatternDoubleBlink =
     [mkStep 120 255 False, mkStep 120 0 False, mkStep 120 255 False, mkStep 600 0 False]"

definition kPatternTripleBlink :: "PatternStep list" where
  "kPatternTripleBlink =
     [mkStep 90 255 False, mkStep 90 0 False, mkStep 90 255 False, mkStep 90 0 False,
      mkStep 90 255 False, mkStep 600 0 False]"

definition kPatternBeacon :: "PatternStep list" where
  "kPatternBeacon = [mkStep 80 255 False, mkStep 3920 0 False]"

definition kPatternStrobe :: "PatternStep list" where
  "kPatternStrobe = [mkStep 50 255 False, mkStep 50 0 False]"

definition kPatternHeartbeat :: "PatternStep list" where
  "kPatternHeartbeat =
     [mkStep 70 255 False, mkStep 70 0 False, mkStep 70 200 False, mkStep 600 0 False]"

definition kPatternPolice :: "PatternStep list" where
  "kPatternPolice =
     [mkStep 120 255 False, mkStep 60 0 False, mkStep 120 255 True, mkStep 400 0 False]"

record PresetDef =
  preset :: StatusPreset
  presetMode :: Mode
  primary :: RgbColor
  secondary :: RgbColor
  useSecondary :: bool

definition mkPreset :: "StatusPreset \<Rightarrow> Mode \<Rightarrow> RgbColor \<Rightarrow> RgbColor \<Rightarrow> bool \<Rightarrow> PresetDef" where
  "mkPreset p m c1 c2 u =
     \<lparr>preset = p, presetMode = m, primary = c1, secondary = c2, useSecondary = u\<rparr>"

definition kColorOff :: RgbColor where "kColorOff = mkRgb 0 0 0"
definition kColorGreen :: RgbColor where "kColorGreen = mkRgb 0 255 0"
definition kColorOrange :: RgbColor where "kColorOrange = mkRgb 255 128 0"
definition kColorAmber :: RgbColor where "kColorAmber = mkRgb 255 180 0"
definition kColorRed :: RgbColor where "kColorRed = mkRgb 255 0 0"
definition kColorCyan :: RgbColor where "kColorCyan = mkRgb 0 255 255"
definition kColorBlue :: RgbColor where "kColorBlue = mkRgb 0 0 255"
definition kColorPurple :: RgbColor where "kColorPurple = mkRgb 128 0 255"

definition kPresets :: "PresetDef list" where
  "kPresets =
     [mkPreset PresetOff Off kColorOff kColorOff False,
      mkPreset PresetReady Solid kColorGreen kColorOff False,
      mkPreset PresetBusy PulseSoft kColorOrange kColorOff False,
      mkPreset PresetWarning BlinkSlow kColorAmber kColorOff False,
      mkPreset PresetError BlinkFast kColorRed kColorOff False,
      mkPreset PresetCritical Strobe kColorRed kColorOff False,
      mkPreset PresetUpdating Breathing kColorCyan kColorOff False,
      mkPreset PresetInfo Solid kColorBlue kColorOff False,
      mkPreset PresetMaintenance DoubleBlink kColorPurple kColorOff False,
      mkPreset PresetAlarmPolice Alternate kColorRed kColorBlue True,
      mkPreset PresetHazardAmber DoubleBlink kColorAmber kColorOff False]"

text \<open>\<^verbatim>\<open>findPreset\<close>: linear scan, first match; \<open>None\<close> is the null pointer.\<close>

fun findPresetIn :: "PresetDef list \<Rightarrow> StatusPreset \<Rightarrow> PresetDef option" where
  "findPresetIn [] p = None"
| "findPresetIn (d # ds) p = (if preset d = p then Some d else findPresetIn ds p)"

definition findPreset :: "StatusPreset \<Rightarrow> PresetDef option" where
  "findPreset p = findPresetIn kPresets p"

text \<open>\<^verbatim>\<open>static_cast<int32_t>(now - target) >= 0\<close>: the difference wraps, then is read signed.\<close>

definition timeReached :: "u32 \<Rightarrow> u32 \<Rightarrow> bool" where
  "timeReached now target = (0 \<le> sint (now - target))"

text \<open>
  \<^verbatim>\<open>(static_cast<uint16_t>(value) * scale + 127) / 255\<close>: both operands are promoted to
  the 32-bit \<^verbatim>\<open>int\<close>, the quotient is cast back to a byte.
\<close>

definition scale8 :: "u8 \<Rightarrow> u8 \<Rightarrow> u8" where
  "scale8 v scale = ucast (((ucast v :: u32) * ucast scale + 127) div 255)"

definition ease8InOut :: "u8 \<Rightarrow> u8" where
  "ease8InOut x =
     (let y = (if x AND 0x80 \<noteq> 0 then 255 - x else x);
          z = (ucast ((ucast y :: u32) * ucast y) :: u16);
          z = drop_bit 7 z;
          out = (ucast (if z > 255 then 255 else z) :: u8)
      in if x AND 0x80 \<noteq> 0 then 255 - out else out)"

text \<open>
  \<^verbatim>\<open>lerpU8\<close>: \<open>range\<close> is the \<^verbatim>\<open>int\<close> difference cast to 16 bits (it wraps when
  \<open>maxVal < minVal\<close>), the product is taken in 32 bits, the quotient cast to 16 bits, and
  the \<^verbatim>\<open>int\<close> sum \<open>minVal + scaled\<close> is cast to a byte.
\<close>

definition lerpU8 :: "u8 \<Rightarrow> u8 \<Rightarrow> u16 \<Rightarrow> u16 \<Rightarrow> u8" where
  "lerpU8 minVal maxVal pos span =
     (if span = 0 then maxVal
      else let range = (ucast maxVal - ucast minVal :: u16);
               scaled = (ucast (((ucast range :: u32) * ucast pos) div ucast span) :: u16)
           in ucast ((ucast minVal :: u32) + ucast scaled))"

definition sanitizeParams :: "Mode \<Rightarrow> ModeParams \<Rightarrow> ModeParams" where
  "sanitizeParams m p0 =
     (let p1 = (if periodMs p0 < 2 then p0\<lparr>periodMs := 2\<rparr> else p0);
          p2 = (if onMs p1 > periodMs p1 then p1\<lparr>onMs := periodMs p1\<rparr> else p1);
          p3 = (if maxLevel p2 < minLevel p2
                then p2\<lparr>maxLevel := minLevel p2, minLevel := maxLevel p2\<rparr> else p2);
          p4 = (if m = FadeIn \<and> riseMs p3 = 0 then p3\<lparr>riseMs := 1\<rparr> else p3);
          p5 = (if m = FadeOut \<and> fallMs p4 = 0 then p4\<lparr>fallMs := 1\<rparr> else p4)
      in p5)"

text \<open>\<^verbatim>\<open>StatusLed::getModeDefaults\<close>: starts from a default \<^verbatim>\<open>ModeParams\<close>.\<close>

fun getModeDefaults :: "Mode \<Rightarrow> ModeParams" where
  "getModeDefaults BlinkSlow = ModeParams0\<lparr>periodMs := 1000, onMs := 500\<rparr>"
| "getModeDefaults BlinkFast = ModeParams0\<lparr>periodMs := 250, onMs := 125\<rparr>"
| "getModeDefaults Strobe = ModeParams0\<lparr>periodMs := 100, onMs := 50\<rparr>"
| "getModeDefaults FadeIn = ModeParams0\<lparr>riseMs := 1000\<rparr>"
| "getModeDefaults FadeOut = ModeParams0\<lparr>fallMs := 1000\<rparr>"
| "getModeDefaults PulseSoft = ModeParams0\<lparr>periodMs := 2000, minLevel := 0, maxLevel := 255\<rparr>"
| "getModeDefaults PulseSharp = ModeParams0\<lparr>periodMs := 800, minLevel := 0, maxLevel := 255\<rparr>"
| "getModeDefaults Breathing = ModeParams0\<lparr>periodMs := 3000, minLevel := 20, maxLevel := 255\<rparr>"
| "getModeDefaults Throb = ModeParams0\<lparr>periodMs := 4000, minLevel := 0, maxLevel := 255\<rparr>"
| "getModeDefaults _ = ModeParams0"

section \<open>Engine internals (src/StatusLed.cpp)\<close>

text \<open>
  Every operation returns the \<^verbatim>\<open>Status\<close> of the C++ method together with the engine
  after the call. \<open>updLed i f\<close> is a write through \<^verbatim>\<open>LedState& led = _leds[index]\<close>.
\<close>

definition setLast :: "Status \<Rightarrow> Engine \<Rightarrow> Status \<times> Engine" where
  "setLast st s = (st, s\<lparr>lastStatus := st\<rparr>)"

definition indexValid :: "Engine \<Rightarrow> u8 \<Rightarrow> bool" where
  "indexValid s index = (index < ledCount (config s))"

definition updLed :: "nat \<Rightarrow> (LedState \<Rightarrow> LedState) \<Rightarrow> Engine \<Rightarrow> Engine" where
  "updLed i f s = s\<lparr>leds := (leds s)[i := f (leds s ! i)]\<rparr>"

text \<open>\<^verbatim>\<open>refreshLedOutput(index, intensity, useAlt)\<close>.\<close>

definition outputColor :: "Engine \<Rightarrow> nat \<Rightarrow> u8 \<Rightarrow> bool \<Rightarrow> RgbColor" where
  "outputColor s i inten alt =
     (let led = leds s ! i;
          base = (if alt then altColor led else color led);
          scaled1 = scale8 inten (brightness led);
          scaled2 = scale8 scaled1 (globalBrightness (config s))
      in mkRgb (scale8 (r base) scaled2) (scale8 (g base) scaled2) (scale8 (b base) scaled2))"

definition refreshLedOutput3 :: "nat \<Rightarrow> u8 \<Rightarrow> bool \<Rightarrow> Engine \<Rightarrow> Engine" where
  "refreshLedOutput3 i inten alt s =
     (let out = outputColor s i inten alt
      in if frame s ! i \<noteq> out
         then s\<lparr>frame := (frame s)[i := out], frameDirty := True\<rparr>
         else s)"

text \<open>\<^verbatim>\<open>refreshLedOutput(index)\<close>: with the LED's stored intensity and flag.\<close>

definition refreshLedOutput :: "nat \<Rightarrow> Engine \<Rightarrow> Engine" where
  "refreshLedOutput i s = refreshLedOutput3 i (intensity (leds s ! i)) (useAlt (leds s ! i)) s"

definition setModeInternal :: "nat \<Rightarrow> Mode \<Rightarrow> ModeParams \<Rightarrow> Engine \<Rightarrow> Status \<times> Engine" where
  "setModeInternal i m p s =
     (Ok, updLed i (\<lambda>led. led\<lparr>mode := m, params := sanitizeParams m p, phase := 0,
                               useAlt := False, modeStartMs := lastTickMs s,
                               nextUpdateMs := lastTickMs s, phaseEndMs := lastTickMs s\<rparr>) s)"

definition setColorInternal :: "nat \<Rightarrow> RgbColor \<Rightarrow> bool \<Rightarrow> Engine \<Rightarrow> Status \<times> Engine" where
  "setColorInternal i c sec s =
     (Ok, refreshLedOutput i
            (if sec then updLed i (\<lambda>led. led\<lparr>altColor := c\<rparr>) s
             else updLed i (\<lambda>led. led\<lparr>color := c\<rparr>) s))"

definition applyPresetInternal :: "nat \<Rightarrow> StatusPreset \<Rightarrow> Engine \<Rightarrow> Status \<times> Engine" where
  "applyPresetInternal i p s =
     (case findPreset p of
        None \<Rightarrow> (mkStatus INVALID_CONFIG (uint p) ''Unknown preset'', s)
      | Some d \<Rightarrow>
          (let s1 = updLed i (\<lambda>led. led\<lparr>currentPreset := p, color := primary d,
                                         altColor := secondary d, useAlt := False\<rparr>) s;
               s2 = snd (setModeInternal i (presetMode d) (getModeDefaults (presetMode d)) s1);
               s3 = (if useSecondary d then updLed i (\<lambda>led. led\<lparr>altColor := secondary d\<rparr>) s2
                     else s2)
           in (Ok, refreshLedOutput i s3)))"

subsection \<open>The mode evaluators: the \<^verbatim>\<open>switch (led.mode)\<close> of \<^verbatim>\<open>updateLed\<close>\<close>

text \<open>
  The \<^verbatim>\<open>default:\<close> branch of the switch has no counterpart: a stored mode is always one
  of the enumerators, since \<^verbatim>\<open>setMode\<close> rejects any other byte and the preset table
  holds enumerators only. The six table-driven cases share one body, each with its own
  table.
\<close>

definition patternStep :: "PatternStep list \<Rightarrow> u32 \<Rightarrow> LedState \<Rightarrow> LedState" where
  "patternStep tbl now led =
     (let step = tbl ! (unat (phase led) mod length tbl)
      in led\<lparr>intensity := stepIntensity step, useAlt := stepUseAlt step,
              phase := phase led + 1, nextUpdateMs := now + ucast (durationMs step)\<rparr>)"

definition blinkStep :: "u32 \<Rightarrow> LedState \<Rightarrow> LedState" where
  "blinkStep now led =
     (let on = onMs (params led);
          period = periodMs (params led);
          off = (if period > on then period - on else 0);
          led1 = (if phase led = 0
                  then led\<lparr>phase := 1, intensity := 255, useAlt := False,
                            phaseEndMs := now + ucast on\<rparr>
                  else led\<lparr>phase := 0, intensity := 0, useAlt := False,
                            phaseEndMs := now + ucast off\<rparr>)
      in led1\<lparr>nextUpdateMs := phaseEndMs led1\<rparr>)"

definition fadeInStep :: "Config \<Rightarrow> u32 \<Rightarrow> LedState \<Rightarrow> LedState" where
  "fadeInStep cfg now led =
     (let elapsed = now - modeStartMs led
      in if elapsed \<ge> ucast (riseMs (params led))
         then led\<lparr>intensity := 255, useAlt := False, nextUpdateMs := kNever\<rparr>
         else led\<lparr>intensity := lerpU8 0 255 (ucast elapsed) (riseMs (params led)),
                   useAlt := False, nextUpdateMs := now + ucast (smoothStepMs cfg)\<rparr>)"

definition fadeOutStep :: "Config \<Rightarrow> u32 \<Rightarrow> LedState \<Rightarrow> LedState" where
  "fadeOutStep cfg now led =
     (let elapsed = now - modeStartMs led
      in if elapsed \<ge> ucast (fallMs (params led))
         then led\<lparr>intensity := 0, useAlt := False, nextUpdateMs := kNever\<rparr>
         else led\<lparr>intensity := lerpU8 255 0 (ucast elapsed) (fallMs (params led)),
                   useAlt := False, nextUpdateMs := now + ucast (smoothStepMs cfg)\<rparr>)"

definition pulseStep :: "Config \<Rightarrow> u32 \<Rightarrow> LedState \<Rightarrow> LedState" where
  "pulseStep cfg now led =
     (let period = (if periodMs (params led) > 0 then periodMs (params led) else 1);
          ph = (ucast (now mod ucast period) :: u16);
          half = period div 2;
          raw = (if ph < half
                 then lerpU8 (minLevel (params led)) (maxLevel (params led)) ph half
                 else lerpU8 (maxLevel (params led)) (minLevel (params led)) (ph - half) half);
          shaped = (if mode led = PulseSoft \<or> mode led = Breathing \<or> mode led = Throb
                    then (let e = ease8InOut raw
                          in if mode led = Breathing then scale8 e e else e)
                    else raw)
      in led\<lparr>intensity := shaped, useAlt := False,
              nextUpdateMs := now + ucast (smoothStepMs cfg)\<rparr>)"

definition flickerStep :: "u32 \<Rightarrow> LedState \<Rightarrow> LedState" where
  "flickerStep now led =
     (let l = drop_bit 1 (lfsr led) XOR ((- (lfsr led AND 1)) AND 0xB400);
          rand8 = (ucast (l AND 0xFF) :: u8);
          inten = (if mode led = FlickerCandle then 140 + rand8 mod 100
                   else if rand8 < 30 then 0 else 255);
          jitter = (30 + ucast (rand8 mod 60) :: u16)
      in led\<lparr>lfsr := l, intensity := inten, useAlt := False,
              nextUpdateMs := now + ucast jitter\<rparr>)"

fun modeStep :: "Config \<Rightarrow> u32 \<Rightarrow> Mode \<Rightarrow> LedState \<Rightarrow> LedState" where
  "modeStep cfg now Off led = led\<lparr>intensity := 0, useAlt := False, nextUpdateMs := kNever\<rparr>"
| "modeStep cfg now Solid led = led\<lparr>intensity := 255, useAlt := False, nextUpdateMs := kNever\<rparr>"
| "modeStep cfg now Dim led =
     led\<lparr>intensity := kDimLevel, useAlt := False, nextUpdateMs := kNever\<rparr>"
| "modeStep cfg now BlinkSlow led = blinkStep now led"
| "modeStep cfg now BlinkFast led = blinkStep now led"
| "modeStep cfg now DoubleBlink led = patternStep kPatternDoubleBlink now led"
| "modeStep cfg now TripleBlink led = patternStep kPatternTripleBlink now led"
| "modeStep cfg now Beacon led = patternStep kPatternBeacon now led"
| "modeStep cfg now Strobe led = patternStep kPatternStrobe now led"
| "modeStep cfg now Heartbeat led = patternStep kPatternHeartbeat now led"
| "modeStep cfg now Alternate led = patternStep kPatternPolice now led"
| "modeStep cfg now FadeIn led = fadeInStep cfg now led"
| "modeStep cfg now FadeOut led = fadeOutStep cfg now led"
| "modeStep cfg now PulseSoft led = pulseStep cfg now led"
| "modeStep cfg now PulseSharp led = pulseStep cfg now led"
| "modeStep cfg now Breathing led = pulseStep cfg now led"
| "modeStep cfg now Throb led = pulseStep cfg now led"
| "modeStep cfg now FlickerCandle led = flickerStep now led"
| "modeStep cfg now Glitch led = flickerStep now led"

subsection \<open>\<^verbatim>\<open>StatusLed::updateLed\<close>\<close>

text \<open>First block: a pending temporary preset is activated.\<close>

definition activateTemp :: "nat \<Rightarrow> u32 \<Rightarrow> Engine \<Rightarrow> Engine" where
  "activateTemp i now s =
     (if tempPending (leds s ! i)
      then (let s1 = (if \<not> tempActive (leds s ! i)
                      then updLed i (\<lambda>led. led\<lparr>resumeMode := mode led,
                                                 resumeParams := params led,
                                                 resumeColor := color led,
                                                 resumeAltColor := altColor led,
                                                 resumeBrightness := brightness led,
                                                 resumePreset := currentPreset led\<rparr>) s
                      else s);
                s2 = snd (applyPresetInternal i (tempPreset (leds s1 ! i)) s1)
            in updLed i (\<lambda>led. led\<lparr>tempActive := True, tempPending := False,
                                      tempUntilMs := now + tempDurationMs led\<rparr>) s2)
      else s)"

text \<open>Second block: an active temporary preset whose deadline is reached is undone.\<close>

definition restoreLed :: "u32 \<Rightarrow> LedState \<Rightarrow> LedState" where
  "restoreLed now led =
     led\<lparr>tempActive := False, mode := resumeMode led, params := resumeParams led,
         color := resumeColor led, altColor := resumeAltColor led,
         brightness := resumeBrightness led, currentPreset := resumePreset led,
         phase := 0, useAlt := False, modeStartMs := now, nextUpdateMs := now,
         phaseEndMs := now\<rparr>"

definition expireTemp :: "nat \<Rightarrow> u32 \<Rightarrow> Engine \<Rightarrow> Engine" where
  "expireTemp i now s =
     (if tempActive (leds s ! i) \<and> timeReached now (tempUntilMs (leds s ! i))
      then refreshLedOutput i (updLed i (restoreLed now) s)
      else s)"

text \<open>Third block: the two early returns, the mode switch and the output refresh.\<close>

definition evalMode :: "nat \<Rightarrow> u32 \<Rightarrow> Engine \<Rightarrow> Engine" where
  "evalMode i now s =
     (if nextUpdateMs (leds s ! i) = kNever then s
      else if \<not> timeReached now (nextUpdateMs (leds s ! i)) then s
      else (let s1 = updLed i (\<lambda>led. modeStep (config s) now (mode led) led) s
            in refreshLedOutput3 i (intensity (leds s1 ! i)) (useAlt (leds s1 ! i)) s1))"

definition updateLed :: "nat \<Rightarrow> u32 \<Rightarrow> Engine \<Rightarrow> Engine" where
  "updateLed i now s = evalMode i now (expireTemp i now (activateTemp i now s))"

section \<open>Public operations\<close>

text \<open>
  What the transmission backend answers during one call: whether \<^verbatim>\<open>createBackend\<close>
  returns an object, the result of its \<^verbatim>\<open>begin\<close>, of \<^verbatim>\<open>canShow\<close> and of \<^verbatim>\<open>show\<close>.
\<close>

record BackendReply =
  createOk :: bool
  beginStatus :: Status
  canShow :: bool
  showStatus :: Status

text \<open>The null backend of the host tests.\<close>

definition BackendNull :: BackendReply where
  "BackendNull = \<lparr>createOk = True, beginStatus = Ok, canShow = True, showStatus = Ok\<rparr>"

definition kMaxLeds :: u8 where
  "kMaxLeds = 10"

definition endEngine :: "Engine \<Rightarrow> Engine" where
  "endEngine s = s\<lparr>backend := False, initialized := False\<rparr>"

definition freshLeds :: "LedState list" where
  "freshLeds = map (\<lambda>i. LedState0\<lparr>lfsr := 0xABCDE XOR (of_nat i * 7919)\<rparr>) [0..<kMaxLedCount]"

definition beginEngine :: "BackendReply \<Rightarrow> Config \<Rightarrow> Engine \<Rightarrow> Status \<times> Engine" where
  "beginEngine be cfg s =
     (if dataPin cfg < 0
      then setLast (mkStatus INVALID_CONFIG 0 ''dataPin must be >= 0'') s
      else if ledCount cfg = 0 \<or> ledCount cfg > kMaxLeds
      then setLast (mkStatus INVALID_CONFIG (uint (ledCount cfg)) ''ledCount out of range'') s
      else if rmtChannel cfg > 3
      then setLast (mkStatus INVALID_CONFIG (uint (rmtChannel cfg)) ''rmtChannel out of range'') s
      else if smoothStepMs cfg < kMinSmoothStepMs \<or> smoothStepMs cfg > kMaxSmoothStepMs
      then setLast (mkStatus INVALID_CONFIG (uint (smoothStepMs cfg))
                      ''smoothStepMs out of range'') s
      else (let s1 = (endEngine s)\<lparr>config := cfg, lastTickMs := 0, frameDirty := False,
                                    leds := freshLeds,
                                    frame := replicate kMaxLedCount kColorOff\<rparr>
            in if \<not> createOk be
               then setLast (mkStatus OUT_OF_MEMORY 0 ''backend alloc failed'') s1
               else if \<not> ok (beginStatus be)
               then setLast (beginStatus be) s1
               else setLast Ok (s1\<lparr>backend := True, initialized := True,
                                     frameDirty := True\<rparr>)))"

definition notInit :: Status where
  "notInit = mkStatus NOT_INITIALIZED 0 ''begin not called''"

definition badIndex :: "u8 \<Rightarrow> Status" where
  "badIndex index = mkStatus INVALID_CONFIG (uint index) ''index out of range''"

text \<open>\<^verbatim>\<open>setMode(index, mode, params)\<close>; the mode arrives as its raw byte.\<close>

definition setModeP :: "u8 \<Rightarrow> u8 \<Rightarrow> ModeParams \<Rightarrow> Engine \<Rightarrow> Status \<times> Engine" where
  "setModeP index raw p s =
     (if \<not> initialized s then setLast notInit s
      else if \<not> indexValid s index then setLast (badIndex index) s
      else (case modeOfRaw raw of
              None \<Rightarrow> setLast (mkStatus INVALID_CONFIG (uint raw) ''Unknown mode'') s
            | Some m \<Rightarrow>
                (let s1 = updLed (unat index) (\<lambda>led. led\<lparr>currentPreset := PresetOff\<rparr>) s;
                     (st, s2) = setModeInternal (unat index) m p s1
                 in setLast st s2)))"

text \<open>
  \<^verbatim>\<open>setMode(index, mode)\<close> passes \<^verbatim>\<open>getModeDefaults(mode)\<close>, whose \<^verbatim>\<open>switch\<close> falls to
  the default parameters for a byte outside the enumeration.
\<close>

definition setMode :: "u8 \<Rightarrow> u8 \<Rightarrow> Engine \<Rightarrow> Status \<times> Engine" where
  "setMode index raw s =
     setModeP index raw (case modeOfRaw raw of None \<Rightarrow> ModeParams0 | Some m \<Rightarrow> getModeDefaults m) s"

definition setColor :: "u8 \<Rightarrow> RgbColor \<Rightarrow> Engine \<Rightarrow> Status \<times> Engine" where
  "setColor index c s =
     (if \<not> initialized s then setLast notInit s
      else if \<not> indexValid s index then setLast (badIndex index) s
      else (let s1 = updLed (unat index) (\<lambda>led. led\<lparr>currentPreset := PresetOff\<rparr>) s;
                (st, s2) = setColorInternal (unat index) c False s1
            in setLast st s2))"

definition setSecondaryColor :: "u8 \<Rightarrow> RgbColor \<Rightarrow> Engine \<Rightarrow> Status \<times> Engine" where
  "setSecondaryColor index c s =
     (if \<not> initialized s then setLast notInit s
      else if \<not> indexValid s index then setLast (badIndex index) s
      else (let s1 = updLed (unat index) (\<lambda>led. led\<lparr>currentPreset := PresetOff\<rparr>) s;
                (st, s2) = setColorInternal (unat index) c True s1
            in setLast st s2))"

definition setPreset :: "u8 \<Rightarrow> StatusPreset \<Rightarrow> Engine \<Rightarrow> Status \<times> Engine" where
  "setPreset index p s =
     (if \<not> initialized s then setLast notInit s
      else if \<not> indexValid s index then setLast (badIndex index) s
      else (let s1 = updLed (unat index)
                       (\<lambda>led. led\<lparr>tempActive := False, tempPending := False\<rparr>) s;
                (st, s2) = applyPresetInternal (unat index) p s1
            in setLast st s2))"

definition unknownPreset :: "StatusPreset \<Rightarrow> Status" where
  "unknownPreset p = mkStatus INVALID_CONFIG (uint p) ''Unknown preset''"

definition setDefaultPreset :: "u8 \<Rightarrow> StatusPreset \<Rightarrow> Engine \<Rightarrow> Status \<times> Engine" where
  "setDefaultPreset index p s =
     (if \<not> initialized s then setLast notInit s
      else if \<not> indexValid s index then setLast (badIndex index) s
      else if findPreset p = None then setLast (unknownPreset p) s
      else (let s1 = updLed (unat index) (\<lambda>led. led\<lparr>defaultPreset := p\<rparr>) s
            in if currentPreset (leds s1 ! unat index) = PresetOff
                  \<and> mode (leds s1 ! unat index) = Off
               then (let (st, s2) = applyPresetInternal (unat index) p s1 in setLast st s2)
               else setLast Ok s1))"

definition setTemporaryPreset :: "u8 \<Rightarrow> StatusPreset \<Rightarrow> u32 \<Rightarrow> Engine \<Rightarrow> Status \<times> Engine" where
  "setTemporaryPreset index p dur s =
     (if \<not> initialized s then setLast notInit s
      else if \<not> indexValid s index then setLast (badIndex index) s
      else if dur = 0 then setLast (mkStatus INVALID_CONFIG 0 ''durationMs must be > 0'') s
      else if findPreset p = None then setLast (unknownPreset p) s
      else setLast Ok
             (updLed (unat index)
                (\<lambda>led. led\<lparr>tempPreset := p, tempDurationMs := dur, tempPending := True\<rparr>) s))"

definition setBrightness :: "u8 \<Rightarrow> u8 \<Rightarrow> Engine \<Rightarrow> Status \<times> Engine" where
  "setBrightness index level s =
     (if \<not> initialized s then setLast notInit s
      else if \<not> indexValid s index then setLast (badIndex index) s
      else setLast Ok
             (refreshLedOutput (unat index)
                (updLed (unat index) (\<lambda>led. led\<lparr>brightness := level\<rparr>) s)))"

definition setGlobalBrightness :: "u8 \<Rightarrow> Engine \<Rightarrow> Status \<times> Engine" where
  "setGlobalBrightness level s =
     (if \<not> initialized s then setLast notInit s
      else (let s1 = s\<lparr>config := (config s)\<lparr>globalBrightness := level\<rparr>\<rparr>
            in setLast Ok (fold refreshLedOutput [0..<unat (ledCount (config s1))] s1)))"

text \<open>\<^verbatim>\<open>StatusLed::tick\<close>: every configured LED in index order, then the transmission.\<close>

definition tick :: "BackendReply \<Rightarrow> u32 \<Rightarrow> Engine \<Rightarrow> Engine" where
  "tick be now s =
     (if \<not> initialized s then s
      else (let s1 = s\<lparr>lastTickMs := now\<rparr>;
                s2 = fold (\<lambda>i. updateLed i now) [0..<unat (ledCount (config s1))] s1
            in if frameDirty s2 \<and> backend s2 \<and> canShow be
               then (if ok (showStatus be) then s2\<lparr>frameDirty := False\<rparr>
                     else if code (showStatus be) = RESOURCE_BUSY then s2
                     else s2\<lparr>lastStatus := showStatus be\<rparr>)
               else s2))"

section \<open>Sequences of calls\<close>

text \<open>One call of the public interface, with the backend's answers where it is asked.\<close>

datatype Op =
  OpBegin BackendReply Config
  | OpEnd
  | OpTick BackendReply u32
  | OpSetMode u8 u8
  | OpSetModeP u8 u8 ModeParams
  | OpSetColor u8 RgbColor
  | OpSetSecondaryColor u8 RgbColor
  | OpSetPreset u8 StatusPreset
  | OpSetDefaultPreset u8 StatusPreset
  | OpSetTemporaryPreset u8 StatusPreset u32
  | OpSetBrightness u8 u8
  | OpSetGlobalBrightness u8

fun exec :: "Op \<Rightarrow> Engine \<Rightarrow> Engine" where
  "exec (OpBegin be cfg) s = snd (beginEngine be cfg s)"
| "exec OpEnd s = endEngine s"
| "exec (OpTick be now) s = tick be now s"
| "exec (OpSetMode i m) s = snd (setMode i m s)"
| "exec (OpSetModeP i m p) s = snd (setModeP i m p s)"
| "exec (OpSetColor i c) s = snd (setColor i c s)"
| "exec (OpSetSecondaryColor i c) s = snd (setSecondaryColor i c s)"
| "exec (OpSetPreset i p) s = snd (setPreset i p s)"
| "exec (OpSetDefaultPreset i p) s = snd (setDefaultPreset i p s)"
| "exec (OpSetTemporaryPreset i p d) s = snd (setTemporaryPreset i p d s)"
| "exec (OpSetBrightness i l) s = snd (setBrightness i l s)"
| "exec (OpSetGlobalBrightness l) s = snd (setGlobalBrightness l s)"

text \<open>The calls run in order on a freshly constructed engine.\<close>

definition run :: "Op list \<Rightarrow> Engine" where
  "run ops = fold exec ops Engine0"

text \<open>A series of ticks, each with the backend's answers and its time.\<close>

definition ticks :: "(BackendReply \<times> u32) list \<Rightarrow> Engine \<Rightarrow> Engine" where
  "ticks ts s = fold (\<lambda>bt. tick (fst bt) (snd bt)) ts s"

text \<open>The raw byte of a mode, as a caller's \<^verbatim>\<open>static_cast\<close> of the enumerator gives it.\<close>

fun rawOfMode :: "Mode \<Rightarrow> u8" where
  "rawOfMode Off = 0" | "rawOfMode Solid = 1" | "rawOfMode Dim = 2"
| "rawOfMode BlinkSlow = 3" | "rawOfMode BlinkFast = 4" | "rawOfMode DoubleBlink = 5"
| "rawOfMode TripleBlink = 6" | "rawOfMode Beacon = 7" | "rawOfMode Strobe = 8"
| "rawOfMode FadeIn = 9" | "rawOfMode FadeOut = 10" | "rawOfMode PulseSoft = 11"
| "rawOfMode PulseSharp = 12" | "rawOfMode Breathing = 13" | "rawOfMode Heartbeat = 14"
| "rawOfMode Throb = 15" | "rawOfMode FlickerCandle = 16" | "rawOfMode Glitch = 17"
| "rawOfMode Alternate = 18"

text \<open>The configuration the host tests use (\<^verbatim>\<open>make_config\<close>).\<close>

definition make_config :: Config where
  "make_config = Config0\<lparr>dataPin := 1, ledCount := 1, colorOrder := ColorOrderGRB,
                          rmtChannel := 0, smoothStepMs := 20\<rparr>"

section \<open>The properties, as predicates\<close>

text \<open>The constraints on stored parameters that sanitisation is to establish for a mode.\<close>

definition paramsOk :: "Mode \<Rightarrow> ModeParams \<Rightarrow> bool" where
  "paramsOk m p \<longleftrightarrow>
     2 \<le> periodMs p \<and> onMs p \<le> periodMs p \<and> minLevel p \<le> maxLevel p
     \<and> (m = FadeIn \<longrightarrow> 1 \<le> riseMs p) \<and> (m = FadeOut \<longrightarrow> 1 \<le> fallMs p)"

text \<open>
  The shape of the engine object: the two arrays have their \<^verbatim>\<open>kMaxLedCount\<close> slots and
  the configured count stays within them. In C++ the first two are facts of the type.
\<close>

definition wfEngine :: "Engine \<Rightarrow> bool" where
  "wfEngine s \<longleftrightarrow>
     length (leds s) = kMaxLedCount \<and> length (frame s) = kMaxLedCount
     \<and> unat (ledCount (config s)) \<le> kMaxLedCount"

text \<open>Every slot's live and saved parameters fit their mode.\<close>

definition ledOk :: "LedState \<Rightarrow> bool" where
  "ledOk led \<longleftrightarrow>
     paramsOk (mode led) (params led) \<and> paramsOk (resumeMode led) (resumeParams led)"

definition engOk :: "Engine \<Rightarrow> bool" where
  "engOk s \<longleftrightarrow> wfEngine s \<and> list_all ledOk (leds s)"



section \<open>What \<^verbatim>\<open>updateLed\<close> does to its own slot\<close>

text \<open>
  The writes of \<^verbatim>\<open>applyPresetInternal\<close> and of the three blocks of \<^verbatim>\<open>updateLed\<close> to
  \<^verbatim>\<open>_leds[index]\<close>, as functions of that slot alone (\<open>tk\<close> is \<^verbatim>\<open>_lastTickMs\<close>).
\<close>

definition ledApplyPreset :: "u32 \<Rightarrow> StatusPreset \<Rightarrow> LedState \<Rightarrow> LedState" where
  "ledApplyPreset tk p led =
     (case findPreset p of
        None \<Rightarrow> led
      | Some d \<Rightarrow>
          led\<lparr>currentPreset := p, color := primary d, altColor := secondary d,
              mode := presetMode d,
              params := sanitizeParams (presetMode d) (getModeDefaults (presetMode d)),
              phase := 0, useAlt := False, modeStartMs := tk, nextUpdateMs := tk,
              phaseEndMs := tk\<rparr>)"

definition snapshotLed :: "LedState \<Rightarrow> LedState" where
  "snapshotLed led =
     led\<lparr>resumeMode := mode led, resumeParams := params led, resumeColor := color led,
         resumeAltColor := altColor led, resumeBrightness := brightness led,
         resumePreset := currentPreset led\<rparr>"

definition ledActivate :: "u32 \<Rightarrow> u32 \<Rightarrow> LedState \<Rightarrow> LedState" where
  "ledActivate tk now led =
     (if tempPending led
      then (let l1 = (if \<not> tempActive led then snapshotLed led else led);
                l2 = ledApplyPreset tk (tempPreset l1) l1
            in l2\<lparr>tempActive := True, tempPending := False,
                  tempUntilMs := now + tempDurationMs l2\<rparr>)
      else led)"

definition ledExpire :: "u32 \<Rightarrow> LedState \<Rightarrow> LedState" where
  "ledExpire now led =
     (if tempActive led \<and> timeReached now (tempUntilMs led) then restoreLed now led else led)"

definition ledEval :: "Config \<Rightarrow> u32 \<Rightarrow> LedState \<Rightarrow> LedState" where
  "ledEval cfg now led =
     (if nextUpdateMs led = kNever then led
      else if \<not> timeReached now (nextUpdateMs led) then led
      else modeStep cfg now (mode led) led)"

definition ledUpdate :: "Config \<Rightarrow> u32 \<Rightarrow> u32 \<Rightarrow> LedState \<Rightarrow> LedState" where
  "ledUpdate cfg tk now led = ledEval cfg now (ledExpire now (ledActivate tk now led))"

section \<open>Machine arithmetic\<close>

lemma u8_lt: "unat (v :: u8) < 256"
  using unsigned_less [of v, where 'a = nat] by simp

lemma u16_lt: "unat (v :: u16) < 65536"
  using unsigned_less [of v, where 'a = nat] by simp

lemma ucast_8_32: "unat (ucast (v :: u8) :: u32) = unat v"
  by (simp add: unsigned_ucast_eq take_bit_nat_eq_self_iff order_less_trans [OF u8_lt])

lemma ucast_16_32: "unat (ucast (v :: u16) :: u32) = unat v"
  by (simp add: unsigned_ucast_eq take_bit_nat_eq_self_iff order_less_trans [OF u16_lt])

lemma scale8_prod: "unat (v :: u8) * unat (s :: u8) \<le> 65025"
proof -
  have "unat v \<le> 255" "unat s \<le> 255"
    using u8_lt [of v] u8_lt [of s] by simp_all
  then have "unat v * unat s \<le> 255 * 255"
    by (intro mult_le_mono)
  then show ?thesis by simp
qed

lemma scale8_bound: "unat (v :: u8) * unat (s :: u8) + 127 < 65536"
  using scale8_prod [of v s] by simp

lemma unat_scale8: "unat (scale8 v s) = (unat v * unat s + 127) div 255"
proof -
  have b: "unat v * unat s + 127 < 65536"
    by (rule scale8_bound)
  have c: "unat ((ucast v :: u32) * ucast s + 127) = unat v * unat s + 127"
    using b by (simp add: unat_word_ariths ucast_8_32)
  have d: "unat (((ucast v :: u32) * ucast s + 127) div 255) = (unat v * unat s + 127) div 255"
    by (simp add: unat_div c)
  have e: "(unat v * unat s + 127) div 255 < 256"
    using scale8_prod [of v s] by (intro less_mult_imp_div_less) simp
  show ?thesis
    unfolding scale8_def using d e
    by (simp add: unsigned_ucast_eq take_bit_nat_eq_self_iff)
qed






section \<open>Brightness scaling\<close>

text \<open>
  C6. For every byte \<open>v\<close>, \<open>scale8 v 255 = v\<close> and \<open>scale8 v 0 = 0\<close>; and for every pair
  of bytes the intermediate \<open>v * s + 127\<close> stays below \<open>2 ^ 16\<close>, so that the machine
  computation of \<open>scale8\<close> is the exact rounded quotient \<open>(v * s + 127) div 255\<close>.
\<close>

theorem scale8_identity_zero_exact:
  "scale8 v 255 = v \<and> scale8 v 0 = 0
   \<and> unat v * unat s + 127 < 2 ^ 16
   \<and> unat (scale8 v s) = (unat v * unat s + 127) div 255"
proof -
  have "unat v * unat s + 127 < 2 ^ 16"
    using scale8_bound [of v s] by simp
  moreover have "scale8 v 255 = v" "scale8 v 0 = 0"
    by (simp_all add: word_unat_eq_iff unat_scale8)
  ultimately show ?thesis
    by (simp add: unat_scale8)
qed

section \<open>Structure of the operations\<close>

lemma refresh3_fields [simp]:
  "leds (refreshLedOutput3 i a c s) = leds s"
  "config (refreshLedOutput3 i a c s) = config s"
  "lastTickMs (refreshLedOutput3 i a c s) = lastTickMs s"
  "initialized (refreshLedOutput3 i a c s) = initialized s"
  "backend (refreshLedOutput3 i a c s) = backend s"
  "lastStatus (refreshLedOutput3 i a c s) = lastStatus s"
  "length (frame (refreshLedOutput3 i a c s)) = length (frame s)"
  by (simp_all add: refreshLedOutput3_def Let_def)

lemma refresh_fields [simp]:
  "leds (refreshLedOutput i s) = leds s"
  "config (refreshLedOutput i s) = config s"
  "lastTickMs (refreshLedOutput i s) = lastTickMs s"
  "initialized (refreshLedOutput i s) = initialized s"
  "backend (refreshLedOutput i s) = backend s"
  "lastStatus (refreshLedOutput i s) = lastStatus s"
  "length (frame (refreshLedOutput i s)) = length (frame s)"
  by (simp_all add: refreshLedOutput_def)

lemma updLed_fields [simp]:
  "leds (updLed i f s) = (leds s)[i := f (leds s ! i)]"
  "config (updLed i f s) = config s"
  "lastTickMs (updLed i f s) = lastTickMs s"
  "initialized (updLed i f s) = initialized s"
  "backend (updLed i f s) = backend s"
  "lastStatus (updLed i f s) = lastStatus s"
  "frame (updLed i f s) = frame s"
  "frameDirty (updLed i f s) = frameDirty s"
  by (simp_all add: updLed_def)

lemma setLast_fields [simp]:
  "fst (setLast st s) = st"
  "leds (snd (setLast st s)) = leds s"
  "config (snd (setLast st s)) = config s"
  "lastTickMs (snd (setLast st s)) = lastTickMs s"
  "initialized (snd (setLast st s)) = initialized s"
  "backend (snd (setLast st s)) = backend s"
  "frame (snd (setLast st s)) = frame s"
  "frameDirty (snd (setLast st s)) = frameDirty s"
  by (simp_all add: setLast_def)

lemma updLed_updLed: "updLed i f (updLed i h s) = updLed i (\<lambda>l. f (h l)) s"
  by (cases "i < length (leds s)") (simp_all add: updLed_def list_update_beyond not_less)

lemma updLed_cong: "(\<And>l. f l = h l) \<Longrightarrow> updLed i f s = updLed i h s"
  by (simp add: updLed_def)

lemma setModeInternal_eq:
  "snd (setModeInternal i m p s) =
     updLed i (\<lambda>led. led\<lparr>mode := m, params := sanitizeParams m p, phase := 0,
                          useAlt := False, modeStartMs := lastTickMs s,
                          nextUpdateMs := lastTickMs s, phaseEndMs := lastTickMs s\<rparr>) s"
  by (simp add: setModeInternal_def)

lemma applyPreset_Some:
  assumes "findPreset p = Some d"
  shows "applyPresetInternal i p s =
           (Ok, refreshLedOutput i (updLed i (ledApplyPreset (lastTickMs s) p) s))"
proof -
  have "\<And>l. ledApplyPreset (lastTickMs s) p l =
      (if useSecondary d then (\<lambda>led. led\<lparr>altColor := secondary d\<rparr>) else (\<lambda>led. led))
        ((l\<lparr>currentPreset := p, color := primary d, altColor := secondary d, useAlt := False\<rparr>)
           \<lparr>mode := presetMode d,
            params := sanitizeParams (presetMode d) (getModeDefaults (presetMode d)),
            phase := 0, useAlt := False, modeStartMs := lastTickMs s,
            nextUpdateMs := lastTickMs s, phaseEndMs := lastTickMs s\<rparr>)"
    using assms by (intro LedState.equality) (simp_all add: ledApplyPreset_def)
  then show ?thesis
    using assms
    by (simp add: applyPresetInternal_def setModeInternal_eq Let_def updLed_updLed
          cong: updLed_cong)
qed

lemma applyPreset_None:
  "findPreset p = None \<Longrightarrow> applyPresetInternal i p s = (mkStatus INVALID_CONFIG (uint p) ''Unknown preset'', s)"
  by (simp add: applyPresetInternal_def)

lemma applyPreset_leds:
  "leds (snd (applyPresetInternal i p s)) = (leds s)[i := ledApplyPreset (lastTickMs s) p (leds s ! i)]"
  by (cases "findPreset p") (simp_all add: applyPreset_Some applyPreset_None ledApplyPreset_def)

lemma applyPreset_fields [simp]:
  "config (snd (applyPresetInternal i p s)) = config s"
  "lastTickMs (snd (applyPresetInternal i p s)) = lastTickMs s"
  "initialized (snd (applyPresetInternal i p s)) = initialized s"
  "backend (snd (applyPresetInternal i p s)) = backend s"
  "lastStatus (snd (applyPresetInternal i p s)) = lastStatus s"
  "length (frame (snd (applyPresetInternal i p s))) = length (frame s)"
  by (simp_all add: applyPresetInternal_def setModeInternal_def Let_def split: option.split)


lemma activateTemp_leds:
  "leds (activateTemp i now s) = (leds s)[i := ledActivate (lastTickMs s) now (leds s ! i)]"
proof (cases "i < length (leds s)")
  case True
  then show ?thesis
    by (simp add: activateTemp_def ledActivate_def Let_def applyPreset_leds snapshotLed_def)
next
  case False
  then show ?thesis
    by (simp add: activateTemp_def Let_def applyPreset_leds list_update_beyond not_less)
qed

lemma activateTemp_fields [simp]:
  "config (activateTemp i now s) = config s"
  "lastTickMs (activateTemp i now s) = lastTickMs s"
  "initialized (activateTemp i now s) = initialized s"
  "backend (activateTemp i now s) = backend s"
  "lastStatus (activateTemp i now s) = lastStatus s"
  "length (frame (activateTemp i now s)) = length (frame s)"
  by (simp_all add: activateTemp_def Let_def)

lemma expireTemp_leds:
  "leds (expireTemp i now s) = (leds s)[i := ledExpire now (leds s ! i)]"
  by (simp add: expireTemp_def ledExpire_def)

lemma expireTemp_fields [simp]:
  "config (expireTemp i now s) = config s"
  "lastTickMs (expireTemp i now s) = lastTickMs s"
  "initialized (expireTemp i now s) = initialized s"
  "backend (expireTemp i now s) = backend s"
  "lastStatus (expireTemp i now s) = lastStatus s"
  "length (frame (expireTemp i now s)) = length (frame s)"
  by (simp_all add: expireTemp_def)

lemma evalMode_leds:
  "leds (evalMode i now s) = (leds s)[i := ledEval (config s) now (leds s ! i)]"
  by (simp add: evalMode_def ledEval_def Let_def)

lemma evalMode_fields [simp]:
  "config (evalMode i now s) = config s"
  "lastTickMs (evalMode i now s) = lastTickMs s"
  "initialized (evalMode i now s) = initialized s"
  "backend (evalMode i now s) = backend s"
  "lastStatus (evalMode i now s) = lastStatus s"
  "length (frame (evalMode i now s)) = length (frame s)"
  by (simp_all add: evalMode_def Let_def)

lemma updateLed_leds:
  "leds (updateLed i now s) = (leds s)[i := ledUpdate (config s) (lastTickMs s) now (leds s ! i)]"
  by (cases "i < length (leds s)")
     (simp_all add: updateLed_def ledUpdate_def evalMode_leds expireTemp_leds activateTemp_leds
        list_update_beyond not_less)

lemma updateLed_fields [simp]:
  "config (updateLed i now s) = config s"
  "lastTickMs (updateLed i now s) = lastTickMs s"
  "initialized (updateLed i now s) = initialized s"
  "backend (updateLed i now s) = backend s"
  "lastStatus (updateLed i now s) = lastStatus s"
  "length (frame (updateLed i now s)) = length (frame s)"
  by (simp_all add: updateLed_def)

lemma fold_updateLed_fields [simp]:
  "config (fold (\<lambda>i. updateLed i now) [0..<n] s) = config s"
  "lastTickMs (fold (\<lambda>i. updateLed i now) [0..<n] s) = lastTickMs s"
  "initialized (fold (\<lambda>i. updateLed i now) [0..<n] s) = initialized s"
  "backend (fold (\<lambda>i. updateLed i now) [0..<n] s) = backend s"
  "lastStatus (fold (\<lambda>i. updateLed i now) [0..<n] s) = lastStatus s"
  "length (frame (fold (\<lambda>i. updateLed i now) [0..<n] s)) = length (frame s)"
  by (induction n) simp_all

lemma fold_updateLed_leds:
  "n \<le> length (leds s) \<Longrightarrow>
   leds (fold (\<lambda>i. updateLed i now) [0..<n] s) =
     map (\<lambda>k. if k < n then ledUpdate (config s) (lastTickMs s) now (leds s ! k) else leds s ! k)
       [0..<length (leds s)]"
proof (induction n)
  case 0
  then show ?case by (simp add: map_nth)
next
  case (Suc n)
  then show ?case
    by (auto simp: updateLed_leds nth_list_update intro!: nth_equalityI)
qed

lemma tick_leds:
  assumes "initialized s" "wfEngine s" "k < unat (ledCount (config s))"
  shows "leds (tick be now s) ! k = ledUpdate (config s) now now (leds s ! k)"
proof -
  have n: "unat (ledCount (config s)) \<le> length (leds s)" and k: "k < length (leds s)"
    using assms by (simp_all add: wfEngine_def)
  have "leds (tick be now s) =
          leds (fold (\<lambda>i. updateLed i now) [0..<unat (ledCount (config s))] (s\<lparr>lastTickMs := now\<rparr>))"
    using assms(1) by (simp add: tick_def Let_def)
  then show ?thesis
    using fold_updateLed_leds [of "unat (ledCount (config s))" "s\<lparr>lastTickMs := now\<rparr>" now] n k assms(3)
    by simp
qed

lemma tick_fields [simp]:
  "config (tick be now s) = config s"
  "initialized (tick be now s) = initialized s"
  "backend (tick be now s) = backend s"
  "length (frame (tick be now s)) = length (frame s)"
  by (simp_all add: tick_def Let_def)

lemma tick_length_leds: "wfEngine s \<Longrightarrow> length (leds (tick be now s)) = length (leds s)"
  by (cases "initialized s")
     (simp_all add: tick_def Let_def fold_updateLed_leds wfEngine_def)

lemmas step_defs = blinkStep_def patternStep_def fadeInStep_def fadeOutStep_def pulseStep_def
  flickerStep_def

lemma modeStep_keeps [simp]:
  "mode (modeStep cfg now m led) = mode led"
  "params (modeStep cfg now m led) = params led"
  "color (modeStep cfg now m led) = color led"
  "altColor (modeStep cfg now m led) = altColor led"
  "brightness (modeStep cfg now m led) = brightness led"
  "modeStartMs (modeStep cfg now m led) = modeStartMs led"
  "currentPreset (modeStep cfg now m led) = currentPreset led"
  "defaultPreset (modeStep cfg now m led) = defaultPreset led"
  "tempActive (modeStep cfg now m led) = tempActive led"
  "tempPending (modeStep cfg now m led) = tempPending led"
  "tempPreset (modeStep cfg now m led) = tempPreset led"
  "tempUntilMs (modeStep cfg now m led) = tempUntilMs led"
  "tempDurationMs (modeStep cfg now m led) = tempDurationMs led"
  "resumeMode (modeStep cfg now m led) = resumeMode led"
  "resumeParams (modeStep cfg now m led) = resumeParams led"
  "resumeColor (modeStep cfg now m led) = resumeColor led"
  "resumeAltColor (modeStep cfg now m led) = resumeAltColor led"
  "resumeBrightness (modeStep cfg now m led) = resumeBrightness led"
  "resumePreset (modeStep cfg now m led) = resumePreset led"
  by (cases m; simp add: step_defs Let_def)+

lemma ledEval_keeps [simp]:
  "mode (ledEval cfg now led) = mode led"
  "params (ledEval cfg now led) = params led"
  "color (ledEval cfg now led) = color led"
  "altColor (ledEval cfg now led) = altColor led"
  "brightness (ledEval cfg now led) = brightness led"
  "modeStartMs (ledEval cfg now led) = modeStartMs led"
  "currentPreset (ledEval cfg now led) = currentPreset led"
  "defaultPreset (ledEval cfg now led) = defaultPreset led"
  "tempActive (ledEval cfg now led) = tempActive led"
  "tempPending (ledEval cfg now led) = tempPending led"
  "tempPreset (ledEval cfg now led) = tempPreset led"
  "tempUntilMs (ledEval cfg now led) = tempUntilMs led"
  "tempDurationMs (ledEval cfg now led) = tempDurationMs led"
  "resumeMode (ledEval cfg now led) = resumeMode led"
  "resumeParams (ledEval cfg now led) = resumeParams led"
  "resumeColor (ledEval cfg now led) = resumeColor led"
  "resumeAltColor (ledEval cfg now led) = resumeAltColor led"
  "resumeBrightness (ledEval cfg now led) = resumeBrightness led"
  "resumePreset (ledEval cfg now led) = resumePreset led"
  by (simp_all add: ledEval_def)





lemma ledApplyPreset_resume [simp]:
  "resumeMode (ledApplyPreset tk p led) = resumeMode led"
  "resumeParams (ledApplyPreset tk p led) = resumeParams led"
  "resumeColor (ledApplyPreset tk p led) = resumeColor led"
  "resumeAltColor (ledApplyPreset tk p led) = resumeAltColor led"
  "resumeBrightness (ledApplyPreset tk p led) = resumeBrightness led"
  "resumePreset (ledApplyPreset tk p led) = resumePreset led"
  by (simp_all add: ledApplyPreset_def split: option.split)


lemma valid_index_in_range:
  "wfEngine s \<Longrightarrow> indexValid s i \<Longrightarrow> unat i < length (leds s) \<and> unat i < length (frame s) \<and> unat i < unat (ledCount (config s))"
  by (simp add: wfEngine_def indexValid_def word_less_nat_alt)

section \<open>Output pipeline\<close>

text \<open>
  C8, as the code has it. Refreshing LED \<open>i\<close> with intensity \<open>inten\<close> and flag \<open>alt\<close>
  computes each channel as \<open>scale8 base (scale8 (scale8 inten brightness) globalBrightness)\<close>,
  where \<open>base\<close> is the channel of the secondary colour iff \<open>alt\<close> is set: the three
  brightness factors are combined first and the colour channel is scaled once by the
  combined factor. If the computed colour equals the stored frame slot the engine is left
  as it is; otherwise the slot receives the colour and the dirty flag is set, so (for a
  slot of the frame) the engine changes iff the colour differs. Either way the slot then
  holds the computed colour, the other slots are untouched, and the dirty flag is set
  exactly when it was set before or the colour differed.
\<close>

theorem refreshLedOutput_color_and_dirty:
  "r (outputColor s i inten alt) =
      scale8 (r (if alt then altColor (leds s ! i) else color (leds s ! i)))
        (scale8 (scale8 inten (brightness (leds s ! i))) (globalBrightness (config s)))
   \<and> g (outputColor s i inten alt) =
      scale8 (g (if alt then altColor (leds s ! i) else color (leds s ! i)))
        (scale8 (scale8 inten (brightness (leds s ! i))) (globalBrightness (config s)))
   \<and> b (outputColor s i inten alt) =
      scale8 (b (if alt then altColor (leds s ! i) else color (leds s ! i)))
        (scale8 (scale8 inten (brightness (leds s ! i))) (globalBrightness (config s)))
   \<and> (frame s ! i = outputColor s i inten alt \<longrightarrow> refreshLedOutput3 i inten alt s = s)
   \<and> (frame s ! i \<noteq> outputColor s i inten alt \<longrightarrow>
        refreshLedOutput3 i inten alt s =
          s\<lparr>frame := (frame s)[i := outputColor s i inten alt], frameDirty := True\<rparr>)
   \<and> (i < length (frame s) \<longrightarrow>
        (refreshLedOutput3 i inten alt s \<noteq> s \<longleftrightarrow> frame s ! i \<noteq> outputColor s i inten alt)
        \<and> frame (refreshLedOutput3 i inten alt s) ! i = outputColor s i inten alt)
   \<and> (j \<noteq> i \<longrightarrow> frame (refreshLedOutput3 i inten alt s) ! j = frame s ! j)
   \<and> frameDirty (refreshLedOutput3 i inten alt s)
        = (frameDirty s \<or> frame s ! i \<noteq> outputColor s i inten alt)"
proof -
  have "refreshLedOutput3 i inten alt s \<noteq> s"
    if "i < length (frame s)" "frame s ! i \<noteq> outputColor s i inten alt"
  proof
    assume "refreshLedOutput3 i inten alt s = s"
    then have "frame (refreshLedOutput3 i inten alt s) ! i = frame s ! i" by simp
    then show False using that by (simp add: refreshLedOutput3_def Let_def)
  qed
  then show ?thesis
    by (auto simp: outputColor_def mkRgb_def Let_def refreshLedOutput3_def)
qed

text \<open>
  Witness: one LED with colour (1, 0, 0) and brightness 128 after \<^verbatim>\<open>begin\<close>. At intensity
  128 the computed colour is the blank colour already in the frame and nothing changes; at
  intensity 255 it differs and the slot and the dirty flag are written.
\<close>

theorem refreshLedOutput_color_and_dirty_witness:
  "(let s = run [OpBegin BackendNull make_config, OpSetColor 0 (mkRgb 1 0 0), OpSetBrightness 0 128]
    in 0 < length (frame s)
       \<and> frame s ! 0 = outputColor s 0 128 False
       \<and> refreshLedOutput3 0 128 False s = s
       \<and> frame s ! 0 \<noteq> outputColor s 0 255 False
       \<and> refreshLedOutput3 0 255 False s \<noteq> s
       \<and> r (outputColor s 0 255 False) = 1)"
proof -
  define s where
    "s = run [OpBegin BackendNull make_config, OpSetColor 0 (mkRgb 1 0 0), OpSetBrightness 0 128]"
  have h1: "0 < length (frame s)"
    and h2: "frame s ! 0 = outputColor s 0 128 False"
    and h3: "frame s ! 0 \<noteq> outputColor s 0 255 False"
    and h4: "r (outputColor s 0 255 False) = 1"
    unfolding s_def by code_simp+
  have c1: "refreshLedOutput3 0 128 False s = s"
    using refreshLedOutput_color_and_dirty [of s 0 128 False 0] h2 by blast
  have c2: "refreshLedOutput3 0 255 False s \<noteq> s"
    using refreshLedOutput_color_and_dirty [of s 0 255 False 0] h1 h3 by blast
  show ?thesis
    unfolding Let_def s_def [symmetric] using h1 h2 h3 h4 c1 c2 by blast
qed

text \<open>
  The claim as written pre-multiplies the base channel by the intensity and then scales by
  the two brightness levels in turn. On the same engine, at intensity 128, that gives 1 for
  the red channel where the code gives 0.
\<close>

theorem refreshLedOutput_premultiply_counterexample:
  "(let s = run [OpBegin BackendNull make_config, OpSetColor 0 (mkRgb 1 0 0), OpSetBrightness 0 128];
        led = leds s ! 0
    in r (outputColor s 0 128 False)
         \<noteq> scale8 (scale8 (scale8 (r (color led)) 128) (brightness led))
               (globalBrightness (config s))
       \<and> r (outputColor s 0 128 False) = 0
       \<and> scale8 (scale8 (scale8 (r (color led)) 128) (brightness led))
               (globalBrightness (config s)) = 1)"
  by code_simp

section \<open>Presets\<close>

text \<open>
  C9. On an initialised engine, for a valid index and a preset of the catalog,
  \<^verbatim>\<open>setDefaultPreset\<close> succeeds and stores the preset as the LED's default. If the LED is
  idle (current preset Off and mode Off) the preset is applied at once: current preset,
  colours, mode and its sanitised default parameters are set, phase and flag are cleared
  and the three timestamps are set to the last tick time. Otherwise the LED differs from
  before only in its stored default, and the frame and dirty flag are untouched.
\<close>

theorem setDefaultPreset_applies_iff_idle:
  assumes "wfEngine s" "initialized s" "indexValid s i" "findPreset p = Some d"
  shows "fst (setDefaultPreset i p s) = Ok
    \<and> defaultPreset (leds (snd (setDefaultPreset i p s)) ! unat i) = p
    \<and> (currentPreset (leds s ! unat i) = PresetOff \<and> mode (leds s ! unat i) = Off \<longrightarrow>
         leds (snd (setDefaultPreset i p s)) ! unat i =
           (leds s ! unat i)\<lparr>defaultPreset := p, currentPreset := p, color := primary d,
              altColor := secondary d, mode := presetMode d,
              params := sanitizeParams (presetMode d) (getModeDefaults (presetMode d)),
              phase := 0, useAlt := False, modeStartMs := lastTickMs s,
              nextUpdateMs := lastTickMs s, phaseEndMs := lastTickMs s\<rparr>)
    \<and> (\<not> (currentPreset (leds s ! unat i) = PresetOff \<and> mode (leds s ! unat i) = Off) \<longrightarrow>
         leds (snd (setDefaultPreset i p s)) ! unat i = (leds s ! unat i)\<lparr>defaultPreset := p\<rparr>
         \<and> frame (snd (setDefaultPreset i p s)) = frame s
         \<and> frameDirty (snd (setDefaultPreset i p s)) = frameDirty s)"
proof -
  have k: "unat i < length (leds s)"
    using valid_index_in_range [OF assms(1,3)] by simp
  show ?thesis
    using assms(2-4) k
    by (simp add: setDefaultPreset_def Let_def applyPreset_Some [OF assms(4)] ledApplyPreset_def
          split: prod.split)
qed

text \<open>
  Witness: a default of Ready on a fresh (idle) LED is applied; on an LED showing Error it
  is only stored.
\<close>

theorem setDefaultPreset_applies_iff_idle_witness:
  "(let s = run [OpBegin BackendNull make_config];
        t = run [OpBegin BackendNull make_config, OpSetPreset 0 PresetError];
        d = mkPreset PresetReady Solid kColorGreen kColorOff False
    in wfEngine s \<and> initialized s \<and> indexValid s 0 \<and> findPreset PresetReady = Some d
       \<and> wfEngine t \<and> initialized t \<and> indexValid t 0
       \<and> currentPreset (leds s ! unat (0 :: u8)) = PresetOff \<and> mode (leds s ! unat (0 :: u8)) = Off
       \<and> mode (leds t ! unat (0 :: u8)) \<noteq> Off
       \<and> mode (leds (snd (setDefaultPreset 0 PresetReady s)) ! unat (0 :: u8)) = Solid
       \<and> leds (snd (setDefaultPreset 0 PresetReady t)) ! unat (0 :: u8)
           = (leds t ! unat (0 :: u8))\<lparr>defaultPreset := PresetReady\<rparr>)"
proof -
  define s where "s = run [OpBegin BackendNull make_config]"
  define t where "t = run [OpBegin BackendNull make_config, OpSetPreset 0 PresetError]"
  define d where "d = mkPreset PresetReady Solid kColorGreen kColorOff False"
  have hs: "wfEngine s" "initialized s" "indexValid s 0" "findPreset PresetReady = Some d"
    unfolding s_def d_def by code_simp+
  have ht: "wfEngine t" "initialized t" "indexValid t 0"
    unfolding t_def by code_simp+
  have i1: "currentPreset (leds s ! unat (0 :: u8)) = PresetOff \<and> mode (leds s ! unat (0 :: u8)) = Off"
    and i2: "mode (leds t ! unat (0 :: u8)) \<noteq> Off"
    unfolding s_def t_def by code_simp+
  have pm: "presetMode d = Solid"
    unfolding d_def by code_simp
  have "leds (snd (setDefaultPreset 0 PresetReady s)) ! unat (0 :: u8) =
           (leds s ! unat (0 :: u8))\<lparr>defaultPreset := PresetReady, currentPreset := PresetReady,
              color := primary d, altColor := secondary d, mode := presetMode d,
              params := sanitizeParams (presetMode d) (getModeDefaults (presetMode d)),
              phase := 0, useAlt := False, modeStartMs := lastTickMs s,
              nextUpdateMs := lastTickMs s, phaseEndMs := lastTickMs s\<rparr>"
    using setDefaultPreset_applies_iff_idle [OF hs] i1 by blast
  then have c1: "mode (leds (snd (setDefaultPreset 0 PresetReady s)) ! unat (0 :: u8)) = Solid"
    by (simp add: pm)
  have c2: "leds (snd (setDefaultPreset 0 PresetReady t)) ! unat (0 :: u8)
           = (leds t ! unat (0 :: u8))\<lparr>defaultPreset := PresetReady\<rparr>"
    using setDefaultPreset_applies_iff_idle [OF ht hs(4)] i2 by blast
  show ?thesis
    unfolding Let_def s_def [symmetric] t_def [symmetric] d_def [symmetric]
    using hs ht i1 i2 c1 c2 by blast
qed

text \<open>
  C10. On an initialised engine and for a valid index, \<^verbatim>\<open>setPreset\<close> with a value that is
  not in the catalog returns the configuration-invalid error, and the LED it leaves behind
  is the one before with its temporary-override active and pending flags cleared: an
  override that was pending or active is cancelled, and the engine is then not the one
  before the call.
\<close>

theorem setPreset_unknown_cancels_override:
  assumes "wfEngine s" "initialized s" "indexValid s i" "findPreset p = None"
  shows "code (fst (setPreset i p s)) = INVALID_CONFIG
    \<and> leds (snd (setPreset i p s)) ! unat i =
         (leds s ! unat i)\<lparr>tempActive := False, tempPending := False\<rparr>
    \<and> \<not> tempActive (leds (snd (setPreset i p s)) ! unat i)
    \<and> \<not> tempPending (leds (snd (setPreset i p s)) ! unat i)
    \<and> (tempActive (leds s ! unat i) \<or> tempPending (leds s ! unat i) \<longrightarrow>
          snd (setPreset i p s) \<noteq> s)"
proof -
  have k: "unat i < length (leds s)"
    using valid_index_in_range [OF assms(1,3)] by simp
  have l: "leds (snd (setPreset i p s)) ! unat i =
         (leds s ! unat i)\<lparr>tempActive := False, tempPending := False\<rparr>"
    using assms(2-4) k
    by (simp add: setPreset_def Let_def applyPreset_None [OF assms(4)])
  have c: "code (fst (setPreset i p s)) = INVALID_CONFIG"
    using assms(2-4)
    by (simp add: setPreset_def Let_def applyPreset_None [OF assms(4)] mkStatus_def)
  have "snd (setPreset i p s) \<noteq> s"
    if "tempActive (leds s ! unat i) \<or> tempPending (leds s ! unat i)"
  proof
    assume e: "snd (setPreset i p s) = s"
    have "\<not> tempActive (leds (snd (setPreset i p s)) ! unat i)
        \<and> \<not> tempPending (leds (snd (setPreset i p s)) ! unat i)"
      by (simp add: l)
    then have "\<not> tempActive (leds s ! unat i) \<and> \<not> tempPending (leds s ! unat i)"
      unfolding e .
    then show False using that by simp
  qed
  then show ?thesis using l c by simp
qed

text \<open>
  Witness: Ready, then a temporary Error for 200 ms that a tick at 10 activates; a
  \<^verbatim>\<open>setPreset\<close> with the byte 99 then fails and leaves the override cancelled.
\<close>

theorem setPreset_unknown_cancels_override_witness:
  "(let s = run [OpBegin BackendNull make_config, OpSetPreset 0 PresetReady, OpTick BackendNull 0,
                 OpSetTemporaryPreset 0 PresetError 200, OpTick BackendNull 10]
    in wfEngine s \<and> initialized s \<and> indexValid s 0 \<and> findPreset 99 = None
       \<and> tempActive (leds s ! unat (0 :: u8))
       \<and> code (fst (setPreset 0 99 s)) = INVALID_CONFIG
       \<and> \<not> tempActive (leds (snd (setPreset 0 99 s)) ! unat (0 :: u8))
       \<and> snd (setPreset 0 99 s) \<noteq> s)"
proof -
  define s where
    "s = run [OpBegin BackendNull make_config, OpSetPreset 0 PresetReady, OpTick BackendNull 0,
              OpSetTemporaryPreset 0 PresetError 200, OpTick BackendNull 10]"
  have h: "wfEngine s" "initialized s" "indexValid s 0" "findPreset 99 = None"
    unfolding s_def by code_simp+
  have a: "tempActive (leds s ! unat (0 :: u8))"
    unfolding s_def by code_simp
  have c: "code (fst (setPreset 0 99 s)) = INVALID_CONFIG
       \<and> \<not> tempActive (leds (snd (setPreset 0 99 s)) ! unat (0 :: u8))
       \<and> snd (setPreset 0 99 s) \<noteq> s"
    using setPreset_unknown_cancels_override [OF h] a by blast
  show ?thesis
    unfolding Let_def s_def [symmetric] using h a c by blast
qed

section \<open>Temporary override\<close>

lemma ledUpdate_plain:
  assumes "\<not> tempPending led" "\<not> tempActive led"
  shows "ledUpdate cfg tk now led = ledEval cfg now led"
  using assms by (simp add: ledUpdate_def ledActivate_def ledExpire_def)

lemma ticks_simps [simp]:
  "ticks [] s = s"
  "ticks (bt # ts) s = ticks ts (tick (fst bt) (snd bt) s)"
  by (simp_all add: ticks_def)



lemma setTemporaryPreset_fields [simp]:
  "config (snd (setTemporaryPreset i p dur s)) = config s"
  "initialized (snd (setTemporaryPreset i p dur s)) = initialized s"
  "length (leds (snd (setTemporaryPreset i p dur s))) = length (leds s)"
  "frame (snd (setTemporaryPreset i p dur s)) = frame s"
  by (simp_all add: setTemporaryPreset_def)



lemma wfEngine_tick: "wfEngine s \<Longrightarrow> wfEngine (tick be now s)"
  using tick_length_leds [of s be now] by (simp add: wfEngine_def)

lemma indexValid_after [simp]:
  "indexValid (snd (setTemporaryPreset i p dur s)) j = indexValid s j"
  "indexValid (tick be now s) j = indexValid s j"
  by (simp_all add: indexValid_def)





















section \<open>Fade-in\<close>

lemma ledUpdate_idle:
  assumes "\<not> tempPending led" "\<not> tempActive led" "nextUpdateMs led = kNever"
  shows "ledUpdate cfg tk now led = led"
  using assms by (simp add: ledUpdate_plain ledEval_def)

lemma ledEval_due:
  assumes "nextUpdateMs led \<noteq> kNever" "timeReached now (nextUpdateMs led)"
  shows "ledEval cfg now led = modeStep cfg now (mode led) led"
  using assms by (simp add: ledEval_def)

lemma unat_ucast_small:
  "unat (w :: 'a::len word) < 2 ^ LENGTH('b::len) \<Longrightarrow> unat (ucast w :: 'b word) = unat w"
  by (simp add: unsigned_ucast_eq take_bit_nat_eq_self_iff)

lemma unat_lerp_up:
  assumes "unat pos < unat span"
  shows "unat (lerpU8 0 255 pos span) = 255 * unat pos div unat span"
proof -
  define q :: u32 where "q = (255 * ucast pos) div ucast span"
  have sp: "span \<noteq> 0" using assms by auto
  have p: "unat pos < 65536"
    using u16_lt [of pos] by simp
  have m: "unat ((255 :: u32) * ucast pos) = 255 * unat pos"
    using p by (simp add: unat_word_ariths ucast_16_32)
  have dv: "unat q = 255 * unat pos div unat span"
    by (simp add: q_def unat_div m ucast_16_32)
  have "255 * unat pos < 255 * unat span" using assms by simp
  then have b: "unat q < 255"
    unfolding dv by (simp add: less_mult_imp_div_less mult.commute)
  have s16: "unat (ucast q :: u16) = unat q"
    using b by (intro unat_ucast_small) simp
  have s32: "unat (ucast (ucast q :: u16) :: u32) = unat q"
    by (simp only: ucast_16_32 s16)
  have s8: "unat (ucast (ucast (ucast q :: u16) :: u32) :: u8) = unat q"
    using b by (subst unat_ucast_small) (simp_all only: s32, simp)
  have "lerpU8 0 255 pos span = ucast (ucast (ucast q :: u16) :: u32)"
    using sp by (simp add: lerpU8_def Let_def q_def)
  then show ?thesis
    by (simp only: s8 dv)
qed


lemma fadeIn_ramp:
  assumes "now - modeStartMs led < ucast (riseMs (params led))"
  shows "unat (intensity (fadeInStep cfg now led))
           = 255 * unat (now - modeStartMs led) div unat (riseMs (params led))"
proof -
  let ?e = "now - modeStartMs led" and ?R = "riseMs (params led)"
  have lt: "unat ?e < unat ?R"
    using assms by (simp add: word_less_nat_alt ucast_16_32)
  have "unat ?e < 65536"
    using lt u16_lt [of ?R] by simp
  then have c: "unat (ucast ?e :: u16) = unat ?e"
    by (intro unat_ucast_small) simp
  have "intensity (fadeInStep cfg now led) = lerpU8 0 255 (ucast ?e) ?R"
    using assms by (simp add: fadeInStep_def Let_def not_le [symmetric])
  then show ?thesis
    using unat_lerp_up [of "ucast ?e" ?R] lt by (simp only: c)
qed

lemma fadeIn_done:
  assumes "ucast (riseMs (params led)) \<le> now - modeStartMs led"
  shows "intensity (fadeInStep cfg now led) = 255 \<and> nextUpdateMs (fadeInStep cfg now led) = kNever"
  using assms by (simp add: fadeInStep_def Let_def)

lemma fadeIn_mono:
  assumes "now1 - modeStartMs led \<le> now2 - modeStartMs led"
    "now2 - modeStartMs led < ucast (riseMs (params led))"
  shows "intensity (fadeInStep cfg now1 led) \<le> intensity (fadeInStep cfg now2 led)"
proof -
  have l1: "now1 - modeStartMs led < ucast (riseMs (params led))"
    using assms by simp
  have "unat (now1 - modeStartMs led) \<le> unat (now2 - modeStartMs led)"
    using assms(1) by (simp add: word_le_nat_alt)
  then have "255 * unat (now1 - modeStartMs led) div unat (riseMs (params led))
        \<le> 255 * unat (now2 - modeStartMs led) div unat (riseMs (params led))"
    by (intro div_le_mono) simp
  then show ?thesis
    by (simp add: word_le_nat_alt fadeIn_ramp [OF l1] fadeIn_ramp [OF assms(2)])
qed

lemma tick_fadeIn:
  assumes "wfEngine s" "initialized s" "indexValid s i" "mode (leds s ! unat i) = FadeIn"
    "\<not> tempPending (leds s ! unat i)" "\<not> tempActive (leds s ! unat i)"
    "nextUpdateMs (leds s ! unat i) \<noteq> kNever" "timeReached now (nextUpdateMs (leds s ! unat i))"
  shows "leds (tick be now s) ! unat i = fadeInStep (config s) now (leds s ! unat i)"
proof -
  have k: "unat i < unat (ledCount (config s))"
    using valid_index_in_range [OF assms(1,3)] by simp
  show ?thesis
    unfolding tick_leds [OF assms(2,1) k]
    using assms(4) by (simp add: ledUpdate_plain [OF assms(5,6)] ledEval_due [OF assms(7,8)])
qed

lemma tick_idle:
  assumes "wfEngine u" "initialized u" "indexValid u i"
    "\<not> tempPending (leds u ! unat i)" "\<not> tempActive (leds u ! unat i)"
    "nextUpdateMs (leds u ! unat i) = kNever"
  shows "leds (tick be now u) ! unat i = leds u ! unat i"
proof -
  have k: "unat i < unat (ledCount (config u))"
    using valid_index_in_range [OF assms(1,3)] by simp
  show ?thesis
    unfolding tick_leds [OF assms(2,1) k]
    by (rule ledUpdate_idle [OF assms(4-6)])
qed

lemma ticks_idle:
  assumes "wfEngine u" "initialized u" "indexValid u i"
    "\<not> tempPending (leds u ! unat i)" "\<not> tempActive (leds u ! unat i)"
    "nextUpdateMs (leds u ! unat i) = kNever"
  shows "leds (ticks ts u) ! unat i = leds u ! unat i"
  using assms
proof (induction ts arbitrary: u)
  case Nil
  then show ?case by simp
next
  case (Cons bt ts)
  have e: "leds (tick (fst bt) (snd bt) u) ! unat i = leds u ! unat i"
    by (rule tick_idle [OF Cons.prems])
  have "leds (ticks ts (tick (fst bt) (snd bt) u)) ! unat i
          = leds (tick (fst bt) (snd bt) u) ! unat i"
    using Cons.prems by (intro Cons.IH) (simp_all add: wfEngine_tick e)
  then show ?case
    by (simp add: e)
qed

lemma fadeInStep_keeps [simp]:
  "tempPending (fadeInStep cfg now led) = tempPending led"
  "tempActive (fadeInStep cfg now led) = tempActive led"
  by (simp_all add: fadeInStep_def Let_def)

lemma tick_fadeIn_done_stays:
  assumes "wfEngine s" "initialized s" "indexValid s i" "mode (leds s ! unat i) = FadeIn"
    "\<not> tempPending (leds s ! unat i)" "\<not> tempActive (leds s ! unat i)"
    "nextUpdateMs (leds s ! unat i) \<noteq> kNever" "timeReached now (nextUpdateMs (leds s ! unat i))"
    "ucast (riseMs (params (leds s ! unat i))) \<le> now - modeStartMs (leds s ! unat i)"
  shows "leds (ticks ts (tick be now s)) ! unat i = leds (tick be now s) ! unat i"
proof -
  note t = tick_fadeIn [OF assms(1-8), of be]
  show ?thesis
    using assms(1-3,5,6) fadeIn_done [OF assms(9), of "config s"]
    by (intro ticks_idle) (simp_all add: wfEngine_tick t)
qed

text \<open>
  What a tick does to an LED in FadeIn mode that has no temporary override pending or
  active and is due for evaluation at the tick time \<open>now\<close>, with \<open>e = now - modeStartMs\<close>
  the elapsed time and \<open>R\<close> the rise duration: for \<open>e < R\<close> the intensity becomes
  \<open>255 * e div R\<close>, not below the one an evaluation at a smaller elapsed time gives; for
  \<open>e \<ge> R\<close> the intensity becomes 255 and the deadline the never sentinel, after which no
  series of ticks changes the LED. An LED whose deadline is the never sentinel and that has
  no override pending or active is left alone by every tick.
\<close>

lemma fadeIn_evaluated_tick:
  "(wfEngine s \<and> initialized s \<and> indexValid s i \<and> mode (leds s ! unat i) = FadeIn
      \<and> \<not> tempPending (leds s ! unat i) \<and> \<not> tempActive (leds s ! unat i)
      \<and> nextUpdateMs (leds s ! unat i) \<noteq> kNever
      \<and> timeReached now (nextUpdateMs (leds s ! unat i)) \<longrightarrow>
      (now - modeStartMs (leds s ! unat i) < ucast (riseMs (params (leds s ! unat i))) \<longrightarrow>
         unat (intensity (leds (tick be now s) ! unat i))
           = 255 * unat (now - modeStartMs (leds s ! unat i))
               div unat (riseMs (params (leds s ! unat i)))
         \<and> (timeReached now1 (nextUpdateMs (leds s ! unat i))
              \<and> now1 - modeStartMs (leds s ! unat i) \<le> now - modeStartMs (leds s ! unat i) \<longrightarrow>
              intensity (leds (tick be1 now1 s) ! unat i)
                \<le> intensity (leds (tick be now s) ! unat i)))
      \<and> (ucast (riseMs (params (leds s ! unat i))) \<le> now - modeStartMs (leds s ! unat i) \<longrightarrow>
         intensity (leds (tick be now s) ! unat i) = 255
         \<and> nextUpdateMs (leds (tick be now s) ! unat i) = kNever
         \<and> leds (tick be2 now2 (tick be now s)) ! unat i = leds (tick be now s) ! unat i
         \<and> leds (ticks ts (tick be now s)) ! unat i = leds (tick be now s) ! unat i))
   \<and> (wfEngine u \<and> initialized u \<and> indexValid u i
        \<and> \<not> tempPending (leds u ! unat i) \<and> \<not> tempActive (leds u ! unat i)
        \<and> nextUpdateMs (leds u ! unat i) = kNever \<longrightarrow>
        leds (tick be now u) ! unat i = leds u ! unat i
        \<and> leds (ticks ts u) ! unat i = leds u ! unat i)"
proof -
  have A: "unat (intensity (leds (tick be now s) ! unat i))
           = 255 * unat (now - modeStartMs (leds s ! unat i))
               div unat (riseMs (params (leds s ! unat i)))
         \<and> (timeReached now1 (nextUpdateMs (leds s ! unat i))
              \<and> now1 - modeStartMs (leds s ! unat i) \<le> now - modeStartMs (leds s ! unat i) \<longrightarrow>
              intensity (leds (tick be1 now1 s) ! unat i)
                \<le> intensity (leds (tick be now s) ! unat i))"
    if h: "wfEngine s" "initialized s" "indexValid s i" "mode (leds s ! unat i) = FadeIn"
      "\<not> tempPending (leds s ! unat i)" "\<not> tempActive (leds s ! unat i)"
      "nextUpdateMs (leds s ! unat i) \<noteq> kNever"
      and r: "timeReached now (nextUpdateMs (leds s ! unat i))"
      and e: "now - modeStartMs (leds s ! unat i) < ucast (riseMs (params (leds s ! unat i)))"
  proof (intro conjI impI)
    show "unat (intensity (leds (tick be now s) ! unat i))
           = 255 * unat (now - modeStartMs (leds s ! unat i))
               div unat (riseMs (params (leds s ! unat i)))"
      unfolding tick_fadeIn [OF h r] by (rule fadeIn_ramp [OF e])
  next
    assume a: "timeReached now1 (nextUpdateMs (leds s ! unat i))
              \<and> now1 - modeStartMs (leds s ! unat i) \<le> now - modeStartMs (leds s ! unat i)"
    show "intensity (leds (tick be1 now1 s) ! unat i) \<le> intensity (leds (tick be now s) ! unat i)"
      unfolding tick_fadeIn [OF h r] tick_fadeIn [OF h conjunct1 [OF a]]
      by (rule fadeIn_mono [OF conjunct2 [OF a] e])
  qed
  have B: "intensity (leds (tick be now s) ! unat i) = 255
         \<and> nextUpdateMs (leds (tick be now s) ! unat i) = kNever
         \<and> leds (tick be2 now2 (tick be now s)) ! unat i = leds (tick be now s) ! unat i
         \<and> leds (ticks ts (tick be now s)) ! unat i = leds (tick be now s) ! unat i"
    if h: "wfEngine s" "initialized s" "indexValid s i" "mode (leds s ! unat i) = FadeIn"
      "\<not> tempPending (leds s ! unat i)" "\<not> tempActive (leds s ! unat i)"
      "nextUpdateMs (leds s ! unat i) \<noteq> kNever"
      and r: "timeReached now (nextUpdateMs (leds s ! unat i))"
      and e: "ucast (riseMs (params (leds s ! unat i))) \<le> now - modeStartMs (leds s ! unat i)"
    using tick_fadeIn_done_stays [OF h r e, of "[(be2, now2)]" be]
      tick_fadeIn_done_stays [OF h r e, of ts be] fadeIn_done [OF e, of "config s"]
    by (simp add: tick_fadeIn [OF h r])
  have C: "leds (tick be now u) ! unat i = leds u ! unat i
        \<and> leds (ticks ts u) ! unat i = leds u ! unat i"
    if "wfEngine u" "initialized u" "indexValid u i"
        "\<not> tempPending (leds u ! unat i)" "\<not> tempActive (leds u ! unat i)"
        "nextUpdateMs (leds u ! unat i) = kNever"
    using tick_idle [OF that] ticks_idle [OF that] by blast
  show ?thesis
    using A B C by blast
qed

section \<open>Sanitised parameters\<close>

lemma word_ge1: "(x :: u16) \<noteq> 0 \<Longrightarrow> 1 \<le> x"
  by (simp add: word_le_nat_alt unat_gt_0 Suc_leI)

lemma paramsOk_sanitize: "paramsOk m (sanitizeParams m p)"
  by (auto simp: paramsOk_def sanitizeParams_def Let_def not_less word_ge1)

lemma paramsOk_defaults0: "paramsOk Off ModeParams0"
  by (simp add: paramsOk_def ModeParams0_def)

lemma ledOk_LedState0: "ledOk (LedState0\<lparr>lfsr := x\<rparr>)"
  by (simp add: ledOk_def LedState0_def paramsOk_defaults0)

lemma list_all_update: "list_all P xs \<Longrightarrow> (i < length xs \<Longrightarrow> P a) \<Longrightarrow> list_all P (xs[i := a])"
  by (cases "i < length xs")
     (auto simp: list_all_iff list_update_beyond not_less dest: set_update_subset_insert [THEN subsetD])

lemma engOk_updLed:
  assumes "engOk s" "\<And>led. ledOk led \<Longrightarrow> ledOk (f led)"
  shows "engOk (updLed i f s)"
proof -
  have "i < length (leds s) \<Longrightarrow> ledOk (leds s ! i)"
    using assms(1) by (simp add: engOk_def list_all_length)
  then show ?thesis
    using assms by (simp add: engOk_def wfEngine_def list_all_update)
qed

lemma engOk_refresh3 [simp]: "engOk (refreshLedOutput3 i a c s) = engOk s"
  by (simp add: engOk_def wfEngine_def)

lemma engOk_refresh [simp]: "engOk (refreshLedOutput i s) = engOk s"
  by (simp add: engOk_def wfEngine_def)

lemma engOk_setLast [simp]: "engOk (snd (setLast st s)) = engOk s"
  by (simp add: engOk_def wfEngine_def)

lemma ledOk_ledApplyPreset: "ledOk led \<Longrightarrow> ledOk (ledApplyPreset tk p led)"
  by (simp add: ledOk_def ledApplyPreset_def paramsOk_sanitize split: option.split)

lemma ledOk_ledActivate: "ledOk led \<Longrightarrow> ledOk (ledActivate tk now led)"
  using ledOk_ledApplyPreset [of "snapshotLed led" tk "tempPreset led"]
    ledOk_ledApplyPreset [of led tk "tempPreset led"]
  by (simp add: ledActivate_def Let_def ledOk_def snapshotLed_def)

lemma ledOk_ledExpire: "ledOk led \<Longrightarrow> ledOk (ledExpire now led)"
  by (simp add: ledExpire_def restoreLed_def ledOk_def)

lemma ledOk_ledEval: "ledOk led \<Longrightarrow> ledOk (ledEval cfg now led)"
  by (simp add: ledOk_def)

lemma ledOk_ledUpdate: "ledOk led \<Longrightarrow> ledOk (ledUpdate cfg tk now led)"
  by (simp add: ledUpdate_def ledOk_ledEval ledOk_ledExpire ledOk_ledActivate)

lemma engOk_updateLed: "engOk s \<Longrightarrow> engOk (updateLed i now s)"
proof -
  assume a: "engOk s"
  have "i < length (leds s) \<Longrightarrow> ledOk (leds s ! i)"
    using a by (simp add: engOk_def list_all_length)
  then show ?thesis
    using a by (simp add: engOk_def wfEngine_def updateLed_leds list_all_update ledOk_ledUpdate)
qed

lemma engOk_fold_updateLed: "engOk s \<Longrightarrow> engOk (fold (\<lambda>i. updateLed i now) xs s)"
  by (induction xs arbitrary: s) (simp_all add: engOk_updateLed)

lemma engOk_tick: "engOk s \<Longrightarrow> engOk (tick be now s)"
proof -
  assume a: "engOk s"
  have b: "engOk (s\<lparr>lastTickMs := now\<rparr>)"
    using a by (simp add: engOk_def wfEngine_def)
  have c: "engOk (fold (\<lambda>i. updateLed i now) [0..<unat (ledCount (config s))] (s\<lparr>lastTickMs := now\<rparr>))"
    by (rule engOk_fold_updateLed [OF b])
  show ?thesis
    using a c by (simp add: tick_def Let_def engOk_def wfEngine_def)
qed

lemma engOk_applyPreset: "engOk s \<Longrightarrow> engOk (snd (applyPresetInternal i p s))"
  by (cases "findPreset p")
     (simp_all add: applyPreset_None applyPreset_Some engOk_updLed ledOk_ledApplyPreset)

lemma engOk_setModeInternal: "engOk s \<Longrightarrow> engOk (snd (setModeInternal i m p s))"
  unfolding setModeInternal_eq
  by (rule engOk_updLed) (simp_all add: ledOk_def paramsOk_sanitize)

lemma engOk_fold_refresh: "engOk (fold refreshLedOutput xs s) = engOk s"
  by (induction xs arbitrary: s) simp_all

lemma engOk_Engine0: "engOk Engine0"
  by (simp add: engOk_def wfEngine_def Engine0_def Config0_def kMaxLedCount_def list_all_iff
        ledOk_def LedState0_def paramsOk_defaults0)

lemma engOk_begin: "engOk s \<Longrightarrow> engOk (snd (beginEngine be cfg s))"
proof -
  assume a: "engOk s"
  have f: "list_all ledOk freshLeds"
    by (simp add: freshLeds_def list_all_iff ledOk_LedState0)
  have n: "\<not> (ledCount cfg = 0 \<or> kMaxLeds < ledCount cfg) \<Longrightarrow> unat (ledCount cfg) \<le> kMaxLedCount"
    by (simp add: kMaxLeds_def kMaxLedCount_def word_less_nat_alt not_less)
  show ?thesis
    using a f n
    by (auto simp: beginEngine_def Let_def engOk_def wfEngine_def endEngine_def freshLeds_def
          setLast_def)
qed


lemma engOk_end: "engOk s \<Longrightarrow> engOk (endEngine s)"
  by (simp add: engOk_def wfEngine_def endEngine_def)

lemma engOk_updLed_simple:
  assumes "engOk s" "\<And>led. mode (f led) = mode led \<and> params (f led) = params led
      \<and> resumeMode (f led) = resumeMode led \<and> resumeParams (f led) = resumeParams led"
  shows "engOk (updLed i f s)"
  using assms(1) by (rule engOk_updLed) (simp add: ledOk_def assms(2))

lemma engOk_clearPreset: "engOk s \<Longrightarrow> engOk (updLed i (\<lambda>led. led\<lparr>currentPreset := PresetOff\<rparr>) s)"
  by (rule engOk_updLed_simple) simp_all

lemma engOk_setModeP: "engOk s \<Longrightarrow> engOk (snd (setModeP i raw p s))"
  by (simp add: setModeP_def Let_def split_beta engOk_setModeInternal engOk_clearPreset
        split: option.split)

lemma engOk_setMode: "engOk s \<Longrightarrow> engOk (snd (setMode i raw s))"
  by (simp add: setMode_def engOk_setModeP)

lemma engOk_setColorInternal: "engOk s \<Longrightarrow> engOk (snd (setColorInternal i c sec s))"
  by (simp add: setColorInternal_def engOk_updLed_simple)

lemma engOk_setColor: "engOk s \<Longrightarrow> engOk (snd (setColor i c s))"
  by (simp add: setColor_def Let_def split_beta engOk_setColorInternal engOk_clearPreset)

lemma engOk_setSecondaryColor: "engOk s \<Longrightarrow> engOk (snd (setSecondaryColor i c s))"
  by (simp add: setSecondaryColor_def Let_def split_beta engOk_setColorInternal engOk_clearPreset)

lemma engOk_clearTemp:
  "engOk s \<Longrightarrow> engOk (updLed i (\<lambda>led. led\<lparr>tempActive := False, tempPending := False\<rparr>) s)"
  by (rule engOk_updLed_simple) simp_all

lemma engOk_setPreset: "engOk s \<Longrightarrow> engOk (snd (setPreset i p s))"
  by (simp add: setPreset_def Let_def split_beta engOk_applyPreset engOk_clearTemp)

lemma engOk_setDefault:
  "engOk s \<Longrightarrow> engOk (updLed i (\<lambda>led. led\<lparr>defaultPreset := p\<rparr>) s)"
  by (rule engOk_updLed_simple) simp_all

lemma engOk_setDefaultPreset: "engOk s \<Longrightarrow> engOk (snd (setDefaultPreset i p s))"
  by (simp add: setDefaultPreset_def Let_def split_beta engOk_applyPreset engOk_setDefault)

lemma engOk_setTemp:
  "engOk s \<Longrightarrow> engOk (updLed i (\<lambda>led. led\<lparr>tempPreset := p, tempDurationMs := d, tempPending := True\<rparr>) s)"
  by (rule engOk_updLed_simple) simp_all

lemma engOk_setTemporaryPreset: "engOk s \<Longrightarrow> engOk (snd (setTemporaryPreset i p d s))"
  by (simp add: setTemporaryPreset_def engOk_setTemp)

lemma engOk_setBright:
  "engOk s \<Longrightarrow> engOk (updLed i (\<lambda>led. led\<lparr>brightness := l\<rparr>) s)"
  by (rule engOk_updLed_simple) simp_all

lemma engOk_setBrightness: "engOk s \<Longrightarrow> engOk (snd (setBrightness i l s))"
  by (simp add: setBrightness_def engOk_setBright)

lemma engOk_setGlobalBrightness: "engOk s \<Longrightarrow> engOk (snd (setGlobalBrightness l s))"
proof -
  assume a: "engOk s"
  have "engOk (s\<lparr>config := (config s)\<lparr>globalBrightness := l\<rparr>\<rparr>)"
    using a by (simp add: engOk_def wfEngine_def)
  then show ?thesis
    using a by (simp add: setGlobalBrightness_def Let_def engOk_fold_refresh)
qed

lemma engOk_exec: "engOk s \<Longrightarrow> engOk (exec op s)"
  by (cases op)
     (simp_all add: engOk_begin engOk_end engOk_tick engOk_setMode engOk_setModeP engOk_setColor
        engOk_setSecondaryColor engOk_setPreset engOk_setDefaultPreset engOk_setTemporaryPreset
        engOk_setBrightness engOk_setGlobalBrightness)

lemma engOk_fold_exec: "engOk s \<Longrightarrow> engOk (fold exec ops s)"
  by (induction ops arbitrary: s) (simp_all add: engOk_exec)

lemma engOk_run: "engOk (run ops)"
  by (simp add: run_def engOk_fold_exec engOk_Engine0)


lemma setModeP_stores:
  assumes "wfEngine s" "initialized s" "indexValid s i" "modeOfRaw raw = Some m"
  shows "fst (setModeP i raw p s) = Ok
       \<and> mode (leds (snd (setModeP i raw p s)) ! unat i) = m
       \<and> params (leds (snd (setModeP i raw p s)) ! unat i) = sanitizeParams m p"
  using assms valid_index_in_range [OF assms(1,3)]
  by (simp add: setModeP_def Let_def setModeInternal_def)

lemma setPreset_stores:
  assumes "wfEngine s" "initialized s" "indexValid s i" "findPreset q = Some d"
  shows "fst (setPreset i q s) = Ok
       \<and> mode (leds (snd (setPreset i q s)) ! unat i) = presetMode d
       \<and> params (leds (snd (setPreset i q s)) ! unat i)
           = sanitizeParams (presetMode d) (getModeDefaults (presetMode d))"
  using assms valid_index_in_range [OF assms(1,3)]
  by (simp add: setPreset_def Let_def applyPreset_Some [OF assms(4)] ledApplyPreset_def)

lemma sanitize_values:
  "periodMs (sanitizeParams m p) = max 2 (periodMs p)
   \<and> onMs (sanitizeParams m p) = min (onMs p) (max 2 (periodMs p))
   \<and> (maxLevel p < minLevel p \<longrightarrow>
        minLevel (sanitizeParams m p) = maxLevel p \<and> maxLevel (sanitizeParams m p) = minLevel p)
   \<and> (\<not> maxLevel p < minLevel p \<longrightarrow>
        minLevel (sanitizeParams m p) = minLevel p \<and> maxLevel (sanitizeParams m p) = maxLevel p)"
  by (auto simp: sanitizeParams_def Let_def max_def min_def not_less)

text \<open>
  C7. For every mode \<open>m\<close> and parameter record \<open>p\<close> the sanitised record has period at
  least 2 (it is \<open>max 2\<close> of the given one), on-duration clamped to the period, minimum
  level at most the maximum level (the two are swapped when given inverted), rise at least
  1 for FadeIn and fall at least 1 for FadeOut. After any sequence of calls on a fresh
  engine, every LED slot's stored parameters satisfy these constraints for its stored mode;
  and on such an engine, when initialised and for a valid index, \<^verbatim>\<open>setMode\<close> with a valid
  mode stores exactly the sanitised parameters, as does \<^verbatim>\<open>setPreset\<close> with the defaults
  of the preset's mode.
\<close>

theorem sanitized_params_invariant:
  "paramsOk m (sanitizeParams m p)
   \<and> periodMs (sanitizeParams m p) = max 2 (periodMs p)
   \<and> onMs (sanitizeParams m p) = min (onMs p) (max 2 (periodMs p))
   \<and> (maxLevel p < minLevel p \<longrightarrow>
        minLevel (sanitizeParams m p) = maxLevel p \<and> maxLevel (sanitizeParams m p) = minLevel p)
   \<and> list_all (\<lambda>led. paramsOk (mode led) (params led)) (leds (run ops))
   \<and> (initialized (run ops) \<and> indexValid (run ops) i \<longrightarrow>
        (modeOfRaw raw = Some m \<longrightarrow>
           mode (leds (snd (setModeP i raw p (run ops))) ! unat i) = m
           \<and> params (leds (snd (setModeP i raw p (run ops))) ! unat i) = sanitizeParams m p)
        \<and> (findPreset q = Some d \<longrightarrow>
           mode (leds (snd (setPreset i q (run ops))) ! unat i) = presetMode d
           \<and> params (leds (snd (setPreset i q (run ops))) ! unat i)
               = sanitizeParams (presetMode d) (getModeDefaults (presetMode d))))"
proof -
  have ok: "engOk (run ops)"
    by (rule engOk_run)
  then have wf: "wfEngine (run ops)"
    by (simp add: engOk_def)
  have "list_all ledOk (leds (run ops))"
    using ok by (simp add: engOk_def)
  then have inv: "list_all (\<lambda>led. paramsOk (mode led) (params led)) (leds (run ops))"
    by (simp add: list_all_iff ledOk_def)
  show ?thesis
    using paramsOk_sanitize [of m p] sanitize_values [of m p] inv
      setModeP_stores [OF wf, of i raw m p] setPreset_stores [OF wf, of i q d]
    by blast
qed

text \<open>
  Witness: after \<^verbatim>\<open>begin\<close>, \<^verbatim>\<open>setMode\<close> to FadeIn (and to FadeOut) with period 1, on 7,
  rise 0, fall 0 and levels 9 and 3 stores period 2, on 2, levels 3 and 9, and rise 1 (fall
  1); \<^verbatim>\<open>setPreset\<close> Error stores the BlinkFast defaults.
\<close>

theorem sanitized_params_invariant_witness:
  "(let p = \<lparr>periodMs = 1, onMs = 7, riseMs = 0, fallMs = 0, minLevel = 9, maxLevel = 3\<rparr>;
        ops = [OpBegin BackendNull make_config];
        d = mkPreset PresetError BlinkFast kColorRed kColorOff False
    in (initialized (run ops) \<and> indexValid (run ops) 0
        \<and> modeOfRaw (rawOfMode FadeIn) = Some FadeIn \<and> modeOfRaw (rawOfMode FadeOut) = Some FadeOut
        \<and> findPreset PresetError = Some d \<and> maxLevel p < minLevel p)
       \<and> paramsOk FadeIn (sanitizeParams FadeIn p) \<and> paramsOk FadeOut (sanitizeParams FadeOut p)
       \<and> minLevel (sanitizeParams FadeIn p) = maxLevel p
       \<and> params (leds (snd (setModeP 0 (rawOfMode FadeIn) p (run ops))) ! unat (0 :: u8))
           = sanitizeParams FadeIn p
       \<and> params (leds (snd (setModeP 0 (rawOfMode FadeOut) p (run ops))) ! unat (0 :: u8))
           = sanitizeParams FadeOut p
       \<and> sanitizeParams FadeIn p
           = \<lparr>periodMs = 2, onMs = 2, riseMs = 1, fallMs = 0, minLevel = 3, maxLevel = 9\<rparr>
       \<and> sanitizeParams FadeOut p
           = \<lparr>periodMs = 2, onMs = 2, riseMs = 0, fallMs = 1, minLevel = 3, maxLevel = 9\<rparr>
       \<and> params (leds (snd (setPreset 0 PresetError (run ops))) ! unat (0 :: u8))
           = sanitizeParams BlinkFast (getModeDefaults BlinkFast)
       \<and> list_all (\<lambda>led. paramsOk (mode led) (params led))
            (leds (run (ops @ [OpSetModeP 0 (rawOfMode FadeIn) p]))))"
proof -
  define p where
    "p = \<lparr>periodMs = 1, onMs = 7, riseMs = 0, fallMs = 0, minLevel = 9, maxLevel = (3 :: u8)\<rparr>"
  define ops where "ops = [OpBegin BackendNull make_config]"
  define d where "d = mkPreset PresetError BlinkFast kColorRed kColorOff False"
  have h: "initialized (run ops) \<and> indexValid (run ops) 0"
    unfolding ops_def by code_simp
  have hm: "modeOfRaw (rawOfMode FadeIn) = Some FadeIn" "modeOfRaw (rawOfMode FadeOut) = Some FadeOut"
    by code_simp+
  have hp: "findPreset PresetError = Some d" "presetMode d = BlinkFast"
    unfolding d_def by code_simp+
  have hl: "maxLevel p < minLevel p"
    unfolding p_def by code_simp
  have v: "sanitizeParams FadeIn p
           = \<lparr>periodMs = 2, onMs = 2, riseMs = 1, fallMs = 0, minLevel = 3, maxLevel = 9\<rparr>"
    "sanitizeParams FadeOut p
           = \<lparr>periodMs = 2, onMs = 2, riseMs = 0, fallMs = 1, minLevel = 3, maxLevel = 9\<rparr>"
    unfolding p_def by code_simp+
  note T1 = sanitized_params_invariant [where m = FadeIn and p = p and ops = ops and i = 0
      and raw = "rawOfMode FadeIn" and q = PresetError and d = d]
  note T2 = sanitized_params_invariant [where m = FadeOut and p = p and ops = ops and i = 0
      and raw = "rawOfMode FadeOut" and q = PresetError and d = d]
  note T3 = sanitized_params_invariant [where m = FadeIn and p = p
      and ops = "ops @ [OpSetModeP 0 (rawOfMode FadeIn) p]"]
  have a1: "paramsOk FadeIn (sanitizeParams FadeIn p)
      \<and> minLevel (sanitizeParams FadeIn p) = maxLevel p
      \<and> params (leds (snd (setModeP 0 (rawOfMode FadeIn) p (run ops))) ! unat (0 :: u8))
           = sanitizeParams FadeIn p
      \<and> params (leds (snd (setPreset 0 PresetError (run ops))) ! unat (0 :: u8))
           = sanitizeParams (presetMode d) (getModeDefaults (presetMode d))"
    using T1 h hm(1) hp(1) hl by blast
  have a2: "paramsOk FadeOut (sanitizeParams FadeOut p)
      \<and> params (leds (snd (setModeP 0 (rawOfMode FadeOut) p (run ops))) ! unat (0 :: u8))
           = sanitizeParams FadeOut p"
    using T2 h hm(2) by blast
  have a3: "list_all (\<lambda>led. paramsOk (mode led) (params led))
            (leds (run (ops @ [OpSetModeP 0 (rawOfMode FadeIn) p])))"
    using T3 by blast
  have a4: "params (leds (snd (setPreset 0 PresetError (run ops))) ! unat (0 :: u8))
           = sanitizeParams BlinkFast (getModeDefaults BlinkFast)"
    using a1 unfolding hp(2) by blast
  show ?thesis
    unfolding Let_def p_def [symmetric] ops_def [symmetric] d_def [symmetric]
    using h hm hp(1) hl v a1 a2 a3 a4 by blast
qed

section \<open>Where the code departs from its changelog and tests\<close>

lemma fadeOut_done:
  assumes "ucast (fallMs (params led)) \<le> now - modeStartMs led"
  shows "intensity (fadeOutStep cfg now led) = 0 \<and> nextUpdateMs (fadeOutStep cfg now led) = kNever"
  using assms by (simp add: fadeOutStep_def Let_def)

text \<open>
  C2. The fade-out evaluator calls \<open>lerpU8 255 0\<close>, whose 16-bit \<open>range\<close> wraps to 65281
  when the maximum is below the minimum. With the default fall of 1000 ms the host test's
  sequence gives intensity 255 at 0 ms, 24 at 20 ms (the test requires more than 200) and
  50 at 40 ms: the intensity is corrupted and does not decrease.
\<close>

theorem fadeOut_intensity_corrupted:
  "(let s = run [OpBegin BackendNull make_config,
                 OpSetModeP 0 (rawOfMode FadeOut) (getModeDefaults FadeOut), OpTick BackendNull 0];
        s20 = tick BackendNull 20 s;
        s40 = tick BackendNull 40 s20
    in mode (leds s ! 0) = FadeOut \<and> fallMs (params (leds s ! 0)) = 1000
       \<and> intensity (leds s ! 0) = 255
       \<and> intensity (leds s20 ! 0) = 24
       \<and> intensity (leds s40 ! 0) = 50
       \<and> intensity (leds s20 ! 0) < intensity (leds s40 ! 0)
       \<and> lerpU8 255 0 20 1000 = 24 \<and> lerpU8 255 0 40 1000 = 50)"
  by code_simp

text \<open>
  C3. A blink deadline \<open>now + onMs\<close> can be the never sentinel. After a tick at
  \<open>0xFFFFFF82\<close>, \<^verbatim>\<open>setMode\<close> BlinkFast (on 125, period 250) and a tick at the same time, the
  LED is on and its deadline is \<open>0xFFFFFF82 + 125 = 0xFFFFFFFF = kNever\<close>; the ticks at
  \<open>0xFFFFFFFF\<close>, 0, 125 and 1000 all return early and the LED stays on with the schedule
  stopped. The host test's own sequence (mode set at 0, first tick at \<open>0xFFFFFF82\<close>) leaves
  the intensity at 0 where the test requires 255.
\<close>

theorem blink_deadline_hits_never_sentinel:
  "(let s = run [OpBegin BackendNull make_config, OpTick BackendNull 0xFFFFFF82,
                 OpSetMode 0 (rawOfMode BlinkFast), OpTick BackendNull 0xFFFFFF82];
        s' = fold exec [OpTick BackendNull 0xFFFFFFFF, OpTick BackendNull 0,
                        OpTick BackendNull 125, OpTick BackendNull 1000] s;
        t = run [OpBegin BackendNull make_config, OpSetModeP 0 (rawOfMode BlinkFast)
                   (getModeDefaults BlinkFast), OpTick BackendNull 0xFFFFFF82]
    in mode (leds s ! 0) = BlinkFast \<and> onMs (params (leds s ! 0)) = 125
       \<and> periodMs (params (leds s ! 0)) = 250
       \<and> intensity (leds s ! 0) = 255 \<and> nextUpdateMs (leds s ! 0) = kNever
       \<and> intensity (leds s' ! 0) = 255 \<and> nextUpdateMs (leds s' ! 0) = kNever
       \<and> mode (leds t ! 0) = BlinkFast \<and> intensity (leds t ! 0) = 0)"
  by code_simp

text \<open>
  C5. The deadline of a fade-in step, \<open>now + smoothStepMs\<close>, can be the never sentinel,
  as the blink deadline of C3 can. After a tick at \<open>0xFFFFFF00\<close>, \<^verbatim>\<open>setMode\<close> FadeIn
  (rise 1000, step 20) and a tick at \<open>0xFFFFFFEB\<close>, the elapsed time is 235, the intensity
  is \<open>255 * 235 div 1000 = 59\<close> and the deadline is \<open>0xFFFFFFEB + 20 = 0xFFFFFFFF = kNever\<close>.
  The ticks at \<open>0xFFFFFFFF\<close>, 0, 1000 and 5000 return early: the elapsed time passes the
  rise duration and the intensity stays at 59, never reaching 255.
\<close>

theorem fadeIn_frozen_below_full:
  "(let s = run [OpBegin BackendNull make_config, OpTick BackendNull 0xFFFFFF00,
                 OpSetMode 0 (rawOfMode FadeIn), OpTick BackendNull 0xFFFFFFEB];
        s' = fold exec [OpTick BackendNull 0xFFFFFFFF, OpTick BackendNull 0,
                        OpTick BackendNull 1000, OpTick BackendNull 5000] s
    in mode (leds s ! 0) = FadeIn \<and> riseMs (params (leds s ! 0)) = 1000
       \<and> modeStartMs (leds s ! 0) = 0xFFFFFF00
       \<and> \<not> tempActive (leds s ! 0) \<and> \<not> tempPending (leds s ! 0)
       \<and> 0xFFFFFFEB - modeStartMs (leds s ! 0) = 235
       \<and> intensity (leds s ! 0) = 59 \<and> nextUpdateMs (leds s ! 0) = kNever
       \<and> ucast (riseMs (params (leds s ! 0))) \<le> 5000 - modeStartMs (leds s ! 0)
       \<and> mode (leds s' ! 0) = FadeIn
       \<and> intensity (leds s' ! 0) = 59 \<and> nextUpdateMs (leds s' ! 0) = kNever)"
  by code_simp

text \<open>
  C4. \<^verbatim>\<open>begin\<close> checks the data pin only for being negative and does not look at the
  channel order. With the null backend of the host tests, the test's two configurations
  (channel order 99; data pin 300) are accepted and the engine is initialised.
\<close>

theorem begin_accepts_bad_colorOrder_and_pin:
  "(let c1 = make_config\<lparr>colorOrder := 99\<rparr>; c2 = make_config\<lparr>dataPin := 300\<rparr>
    in c1 = \<lparr>dataPin = 1, ledCount = 1, colorOrder = 99, rmtChannel = 0,
              globalBrightness = 255, smoothStepMs = 20\<rparr>
       \<and> colorOrder c1 \<noteq> ColorOrderGRB \<and> colorOrder c1 \<noteq> ColorOrderRGB
       \<and> fst (beginEngine BackendNull c1 Engine0) = Ok
       \<and> initialized (snd (beginEngine BackendNull c1 Engine0))
       \<and> fst (beginEngine BackendNull c2 Engine0) = Ok
       \<and> initialized (snd (beginEngine BackendNull c2 Engine0)))"
  by code_simp

end
